theory Spec2Isabelle
  imports Main
begin

section \<open>Values handled by \<open>read_gmail.py\<close>\<close>

text \<open>
  The script works on the JSON objects the Gmail API client returns: Python dicts, lists,
  strings, integers, booleans and \<open>None\<close>. A dict is an association list: the order of
  the entries is Python's insertion order and a lookup returns the first entry with the
  key. A Python \<open>str\<close> is a \<open>string\<close>. Floating-point numbers do not occur in a Gmail
  message resource and are left out.
\<close>

datatype json =
    JNull
  | JBool bool
  | JInt int
  | JStr string
  | JArr "json list"
  | JObj "(string \<times> json) list"

type_synonym dict = "(string \<times> json) list"

text \<open>The exceptions the script can meet. The last three come from outside the script:
  the missing token file, a failing Gmail API call and a failing file system call.\<close>

datatype error =
    KeyError
  | TypeError
  | AttributeError
  | IndexError
  | FileNotFoundError
  | ProviderError
  | OSError

subsection \<open>The Python operations the script applies to these values\<close>

text \<open>\<open>x.get(k, default)\<close>: only a dict has the method.\<close>

fun py_get :: "json \<Rightarrow> string \<Rightarrow> json \<Rightarrow> error + json" where
  "py_get (JObj kvs) k dflt = (case map_of kvs k of Some v \<Rightarrow> Inr v | None \<Rightarrow> Inr dflt)"
| "py_get _ k dflt = Inl AttributeError"

text \<open>\<open>x[k]\<close> with a string key \<open>k\<close>: a missing key of a dict is a KeyError; a list, a
  string, a number or \<open>None\<close> cannot be indexed by a string.\<close>

fun py_subscript :: "json \<Rightarrow> string \<Rightarrow> error + json" where
  "py_subscript (JObj kvs) k = (case map_of kvs k of Some v \<Rightarrow> Inr v | None \<Rightarrow> Inl KeyError)"
| "py_subscript _ k = Inl TypeError"

text \<open>\<open>k in x\<close> with a string \<open>k\<close>: key membership for a dict, element membership for a
  list, substring test for a string, TypeError otherwise.\<close>

fun is_substring :: "string \<Rightarrow> string \<Rightarrow> bool" where
  "is_substring k [] = (k = [])"
| "is_substring k (c # cs) = (take (length k) (c # cs) = k \<or> is_substring k cs)"

fun py_in :: "string \<Rightarrow> json \<Rightarrow> error + bool" where
  "py_in k (JObj kvs) = Inr (map_of kvs k \<noteq> None)"
| "py_in k (JArr xs) = Inr (JStr k \<in> set xs)"
| "py_in k (JStr s) = Inr (is_substring k s)"
| "py_in k _ = Inl TypeError"

text \<open>\<open>for x in v\<close>: the elements of a list, the characters of a string, the keys of a
  dict; nothing else can be iterated.\<close>

fun py_iter :: "json \<Rightarrow> error + json list" where
  "py_iter (JArr xs) = Inr xs"
| "py_iter (JStr s) = Inr (map (\<lambda>c. JStr [c]) s)"
| "py_iter (JObj kvs) = Inr (map (\<lambda>kv. JStr (fst kv)) kvs)"
| "py_iter _ = Inl TypeError"

text \<open>Truth value of an object, as \<open>if x:\<close> and \<open>not x\<close> read it.\<close>

fun truthy :: "json \<Rightarrow> bool" where
  "truthy JNull = False"
| "truthy (JBool b) = b"
| "truthy (JInt n) = (n \<noteq> 0)"
| "truthy (JStr s) = (s \<noteq> [])"
| "truthy (JArr xs) = (xs \<noteq> [])"
| "truthy (JObj kvs) = (kvs \<noteq> [])"

text \<open>\<open>d[k] = v\<close> on a dict: an existing key keeps its position, a new key goes last.\<close>

fun setitem :: "string \<Rightarrow> json \<Rightarrow> dict \<Rightarrow> dict" where
  "setitem k v [] = [(k, v)]"
| "setitem k v (p # ps) = (if fst p = k then (k, v) # ps else p # setitem k v ps)"

text \<open>\<open>s.lower()\<close>. The script compares the result with the ASCII words \<open>from\<close>,
  \<open>subject\<close> and \<open>date\<close> only; lowering the letters A to Z decides those comparisons.\<close>

definition lower_char :: "char \<Rightarrow> char" where
  "lower_char c =
     (if 65 \<le> (of_char c :: nat) \<and> (of_char c :: nat) \<le> 90
      then char_of ((of_char c :: nat) + 32) else c)"

definition lower :: "string \<Rightarrow> string" where
  "lower s = map lower_char s"

fun py_lower :: "json \<Rightarrow> error + string" where
  "py_lower (JStr s) = Inr (lower s)"
| "py_lower _ = Inl AttributeError"

subsection \<open>The standard-library functions the script calls\<close>

text \<open>
  \<open>base64.urlsafe_b64decode\<close>, \<open>bytes.decode("utf-8", errors="ignore")\<close> and the
  whitespace test behind \<open>str.strip\<close> belong to Python, not to the script. The model takes
  them as parameters; every theorem about \<open>parse_email\<close> below holds for all of them.
  \<open>urlsafe_b64decode\<close> returns \<open>None\<close> where Python raises (\<open>binascii.Error\<close>,
  \<open>ValueError\<close>); decoding with \<open>errors="ignore"\<close> never raises.
\<close>

record pylib =
  urlsafe_b64decode :: "string \<Rightarrow> string option"
  utf8_ignore :: "string \<Rightarrow> string"
  isspace :: "char \<Rightarrow> bool"

text \<open>\<open>s.strip()\<close>: drop the whitespace characters at both ends.\<close>

definition strip :: "pylib \<Rightarrow> string \<Rightarrow> string" where
  "strip lib s = rev (dropWhile (isspace lib) (rev (dropWhile (isspace lib) s)))"

section \<open>\<open>parse_email\<close>\<close>

text \<open>
  One pass of the header loop (source lines 137 to 143). The header is read with
  \<open>h["name"]\<close> and \<open>h["value"]\<close>, which raise on a header that lacks them; a
  header named like an earlier one overwrites the entry the earlier one stored.
\<close>

definition header_step :: "json \<Rightarrow> dict \<Rightarrow> error + dict" where
  "header_step h data =
     (case py_subscript h ''name'' of Inl e \<Rightarrow> Inl e | Inr n \<Rightarrow>
     (case py_lower n of Inl e \<Rightarrow> Inl e | Inr name \<Rightarrow>
     (case py_subscript h ''value'' of Inl e \<Rightarrow> Inl e | Inr val \<Rightarrow>
        Inr (if name = ''from'' then setitem ''remitente'' val data
             else if name = ''subject'' then setitem ''asunto'' val data
             else if name = ''date'' then setitem ''fecha_correo'' val data
             else data))))"

text \<open>The loop \<open>for h in headers\<close> (source line 136).\<close>

fun header_loop :: "json list \<Rightarrow> dict \<Rightarrow> error + dict" where
  "header_loop [] data = Inr data"
| "header_loop (h # hs) data =
     (case header_step h data of Inl e \<Rightarrow> Inl e | Inr data' \<Rightarrow> header_loop hs data')"

text \<open>
  The body of the two \<open>try\<close> blocks (source lines 151 and 157):
  \<open>base64.urlsafe_b64decode(x["body"]["data"]).decode("utf-8", errors="ignore")\<close>.
  \<open>None\<close> stands for any exception raised inside, all of which \<open>except Exception\<close>
  catches: a missing key, a value that is not a dict, data that is not a string (the
  decoder's TypeError) and the decoder's own errors.
\<close>

definition decode_body :: "pylib \<Rightarrow> json \<Rightarrow> string option" where
  "decode_body lib x =
     (case py_subscript x ''body'' of Inl e \<Rightarrow> None | Inr b \<Rightarrow>
     (case py_subscript b ''data'' of Inl e \<Rightarrow> None | Inr d \<Rightarrow>
     (case d of
        JStr s \<Rightarrow> map_option (utf8_ignore lib) (urlsafe_b64decode lib s)
      | _ \<Rightarrow> None)))"

text \<open>
  The loop over \<open>payload["parts"]\<close> (source lines 148 to 154). \<open>body\<close> starts as the
  empty string; \<open>break\<close> leaves the loop with the decoded text, \<open>continue\<close> goes to the
  next part. \<open>part.get\<close> is outside the \<open>try\<close>, so a part that is not a dict raises.
\<close>

fun body_loop :: "pylib \<Rightarrow> json list \<Rightarrow> error + string" where
  "body_loop lib [] = Inr []"
| "body_loop lib (part # parts) =
     (case py_get part ''mimeType'' JNull of Inl e \<Rightarrow> Inl e | Inr mt \<Rightarrow>
        if mt = JStr ''text/plain'' then
          (case decode_body lib part of
             Some text \<Rightarrow> Inr text
           | None \<Rightarrow> body_loop lib parts)
        else body_loop lib parts)"

text \<open>The loop that collects the attachments (source lines 168 to 171).\<close>

fun attachments_loop :: "json list \<Rightarrow> json list \<Rightarrow> error + json list" where
  "attachments_loop [] attachments = Inr attachments"
| "attachments_loop (part # parts) attachments =
     (case py_get part ''filename'' JNull of Inl e \<Rightarrow> Inl e | Inr filename \<Rightarrow>
        attachments_loop parts
          (if truthy filename then attachments @ [filename] else attachments))"

text \<open>
  The text of the body (source lines 146 to 159), before \<open>strip\<close>: the loop when the
  payload has the key \<open>parts\<close>, the payload's own body otherwise, where every failure
  gives the empty string.
\<close>

definition extract_body :: "pylib \<Rightarrow> json \<Rightarrow> error + string" where
  "extract_body lib payload =
     (case py_in ''parts'' payload of Inl e \<Rightarrow> Inl e | Inr has_parts \<Rightarrow>
        if has_parts then
          (case py_subscript payload ''parts'' of Inl e \<Rightarrow> Inl e | Inr ps \<Rightarrow>
          (case py_iter ps of Inl e \<Rightarrow> Inl e | Inr parts \<Rightarrow> body_loop lib parts))
        else
          (case decode_body lib payload of Some text \<Rightarrow> Inr text | None \<Rightarrow> Inr []))"

text \<open>The list of attachments (source lines 166 to 171).\<close>

definition detect_attachments :: "json \<Rightarrow> error + json list" where
  "detect_attachments payload =
     (case py_in ''parts'' payload of Inl e \<Rightarrow> Inl e | Inr has_parts \<Rightarrow>
        if has_parts then
          (case py_subscript payload ''parts'' of Inl e \<Rightarrow> Inl e | Inr ps \<Rightarrow>
          (case py_iter ps of Inl e \<Rightarrow> Inl e | Inr parts \<Rightarrow> attachments_loop parts []))
        else Inr [])"

text \<open>
  \<open>parse_email(msg)\<close>, statement by statement. \<open>now\<close> is the text
  \<open>datetime.now(timezone.utc).isoformat()\<close> returns when the function runs. The result
  is the dict \<open>data\<close>, or the exception that leaves the function.
\<close>

definition parse_email :: "pylib \<Rightarrow> string \<Rightarrow> json \<Rightarrow> error + dict" where
  "parse_email lib now msg =
     (case py_get msg ''payload'' (JObj []) of Inl e \<Rightarrow> Inl e | Inr payload \<Rightarrow>
     (case py_get payload ''headers'' (JArr []) of Inl e \<Rightarrow> Inl e | Inr headers \<Rightarrow>
     (case py_subscript msg ''id'' of Inl e \<Rightarrow> Inl e | Inr msg_id \<Rightarrow>
     (case py_iter headers of Inl e \<Rightarrow> Inl e | Inr hs \<Rightarrow>
     (case header_loop hs [(''id'', msg_id), (''fecha_extraccion'', JStr now)] of
        Inl e \<Rightarrow> Inl e | Inr data1 \<Rightarrow>
     (case extract_body lib payload of Inl e \<Rightarrow> Inl e | Inr body \<Rightarrow>
     (case py_get msg ''snippet'' (JStr []) of Inl e \<Rightarrow> Inl e | Inr snippet \<Rightarrow>
     (case py_get msg ''labelIds'' (JArr []) of Inl e \<Rightarrow> Inl e | Inr labels \<Rightarrow>
     (case detect_attachments payload of Inl e \<Rightarrow> Inl e | Inr attachments \<Rightarrow>
        Inr (setitem ''adjuntos'' (JArr attachments)
            (setitem ''labels'' labels
            (setitem ''snippet'' snippet
            (setitem ''body'' (JStr (strip lib body)) data1)))))))))))))"

section \<open>The entry point and its effects\<close>

text \<open>
  Everything outside the script is a \<open>world\<close>: whether the token file exists, whether
  the Google client library accepts it, what the two API calls answer, whether the file
  system accepts the write, and what the clock reads at the two places the script asks.
\<close>

record world =
  token_exists :: bool
  credentials_error :: "error option"
  build_error :: "error option"
  list_response :: "error + json"
  get_response :: "json \<Rightarrow> error + json"
  makedirs_error :: "error option"
  write_error :: "json \<Rightarrow> error option"
  clock_iso :: string
  clock_timestamp :: string

text \<open>The parsed command line: \<open>args.id\<close> is \<open>None\<close> without \<open>--id\<close>.\<close>

record cli_args =
  arg_id :: "string option"
  arg_last :: bool

text \<open>
  The lines the script prints, and the file it writes. \<open>Mail_json c\<close> is the path
  \<open>DATA_DIR / f"mail_{c}.json"\<close>.
\<close>

datatype path = Mail_json json

datatype notice =
    No_mail_found
  | Reading_id json
  | Last_detected json
  | Usage
  | Saved path
  | Finished

text \<open>What a run does to the outside, in the order it does it.\<close>

datatype event =
    Token_lookup
  | Load_credentials
  | Build_service
  | List_inbox
  | Get_message json
  | Make_dirs
  | Write_file path dict
  | Print notice

type_synonym 'a run = "event list \<times> (error + 'a)"

text \<open>Sequencing: an exception ends the run with the events so far.\<close>

definition and_then :: "'a run \<Rightarrow> ('a \<Rightarrow> 'b run) \<Rightarrow> 'b run" where
  "and_then r f =
     (case snd r of
        Inl e \<Rightarrow> (fst r, Inl e)
      | Inr x \<Rightarrow> (fst r @ fst (f x), snd (f x)))"

text \<open>An outside call that returns nothing: the event, then its failure if it has one.\<close>

definition effect :: "event \<Rightarrow> error option \<Rightarrow> unit run" where
  "effect ev failure = ([ev], case failure of Some e \<Rightarrow> Inl e | None \<Rightarrow> Inr ())"

text \<open>A step of the script itself, which touches nothing outside.\<close>

definition pure_step :: "error + 'a \<Rightarrow> 'a run" where
  "pure_step r = ([], r)"

definition load_credentials :: "world \<Rightarrow> unit run" where
  "load_credentials w =
     and_then (effect Token_lookup (if token_exists w then None else Some FileNotFoundError))
       (\<lambda>_. effect Load_credentials (credentials_error w))"

definition get_gmail_service :: "world \<Rightarrow> unit run" where
  "get_gmail_service w =
     and_then (load_credentials w) (\<lambda>_. effect Build_service (build_error w))"

text \<open>\<open>messages[0]\<close>, reached only when \<open>messages\<close> is truthy.\<close>

fun py_first :: "json \<Rightarrow> error + json" where
  "py_first (JArr (x # xs)) = Inr x"
| "py_first (JArr []) = Inl IndexError"
| "py_first (JStr (c # cs)) = Inr (JStr [c])"
| "py_first (JStr []) = Inl IndexError"
| "py_first (JObj kvs) = Inl KeyError"
| "py_first _ = Inl TypeError"

text \<open>\<open>fetch_last_email\<close>: the newest message's id, or \<open>None\<close> (here \<open>JNull\<close>).\<close>

definition fetch_last_email :: "world \<Rightarrow> json run" where
  "fetch_last_email w =
     and_then ([List_inbox], list_response w) (\<lambda>results.
     and_then (pure_step (py_get results ''messages'' (JArr []))) (\<lambda>messages.
       if \<not> truthy messages then ([Print No_mail_found], Inr JNull)
       else and_then (pure_step (py_first messages)) (\<lambda>m. pure_step (py_subscript m ''id''))))"

definition fetch_email_by_id :: "world \<Rightarrow> json \<Rightarrow> json run" where
  "fetch_email_by_id w msg_id = ([Get_message msg_id], get_response w msg_id)"

text \<open>
  \<open>save_email_json\<close>. The name of the file comes from \<open>data.get("id", ...)\<close>, whose
  default is the placeholder built from the clock; the dict written is \<open>data\<close> itself.
\<close>

definition save_email_json :: "world \<Rightarrow> dict \<Rightarrow> path run" where
  "save_email_json w data =
     and_then (effect Make_dirs (makedirs_error w)) (\<lambda>_.
       (let correo_id = (case map_of data ''id'' of
                           Some v \<Rightarrow> v
                         | None \<Rightarrow> JStr (''sin_id_'' @ clock_timestamp w));
            path = Mail_json correo_id
        in and_then (effect (Write_file path data) (write_error w correo_id)) (\<lambda>_.
             ([Print (Saved path)], Inr path))))"

text \<open>
  \<open>main\<close>, in the order of the source: the service is built first (line 209), then the
  mode is selected (lines 212 to 222), then the message is processed. The mode selection
  yields the id to fetch, or \<open>None\<close> where the source returns early. \<open>if args.id\<close> is
  false for an absent and for an empty \<open>--id\<close>.
\<close>

definition select_mode :: "world \<Rightarrow> cli_args \<Rightarrow> json option run" where
  "select_mode w args =
     (if (case arg_id args of Some s \<Rightarrow> s \<noteq> [] | None \<Rightarrow> False) then
        (case arg_id args of
           Some s \<Rightarrow> ([Print (Reading_id (JStr s))], Inr (Some (JStr s)))
         | None \<Rightarrow> ([], Inr None))
      else if arg_last args then
        and_then (fetch_last_email w) (\<lambda>msg_id.
          if \<not> truthy msg_id then ([], Inr None)
          else ([Print (Last_detected msg_id)], Inr (Some msg_id)))
      else ([Print Usage], Inr None))"

text \<open>The rest of \<open>main\<close> (source lines 225 to 228): fetch, parse, save, report.\<close>

definition process_email :: "pylib \<Rightarrow> world \<Rightarrow> json \<Rightarrow> unit run" where
  "process_email lib w msg_id =
     and_then (fetch_email_by_id w msg_id) (\<lambda>msg.
     and_then (pure_step (parse_email lib (clock_iso w) msg)) (\<lambda>parsed.
     and_then (save_email_json w parsed) (\<lambda>_.
       ([Print Finished], Inr ()))))"

definition main :: "pylib \<Rightarrow> world \<Rightarrow> cli_args \<Rightarrow> unit run" where
  "main lib w args =
     and_then (get_gmail_service w) (\<lambda>_.
     and_then (select_mode w args) (\<lambda>target.
       case target of
         None \<Rightarrow> ([], Inr ())
       | Some msg_id \<Rightarrow> process_email lib w msg_id))"

section \<open>Well-formed messages\<close>

text \<open>
  A message as the Gmail API returns it: a dict with an \<open>id\<close>. Everything else may be
  missing. A payload, where there is one, is a dict; its \<open>headers\<close>, where there are any,
  are a list of dicts that each have a \<open>name\<close> (a string) and a \<open>value\<close>; its \<open>parts\<close>,
  where there are any, are a list of dicts. Nothing is asked of a part's or a payload's
  \<open>mimeType\<close>, \<open>filename\<close> or \<open>body\<close>.
\<close>

fun is_dict :: "json \<Rightarrow> bool" where
  "is_dict (JObj kvs) = True"
| "is_dict _ = False"

fun wf_header :: "json \<Rightarrow> bool" where
  "wf_header (JObj kvs) =
     (case map_of kvs ''name'' of
        Some (JStr s) \<Rightarrow> map_of kvs ''value'' \<noteq> None
      | _ \<Rightarrow> False)"
| "wf_header _ = False"

fun wf_payload :: "json \<Rightarrow> bool" where
  "wf_payload (JObj kvs) =
     ((case map_of kvs ''headers'' of
         None \<Rightarrow> True
       | Some (JArr hs) \<Rightarrow> list_all wf_header hs
       | Some _ \<Rightarrow> False) \<and>
      (case map_of kvs ''parts'' of
         None \<Rightarrow> True
       | Some (JArr ps) \<Rightarrow> list_all is_dict ps
       | Some _ \<Rightarrow> False))"
| "wf_payload _ = False"

fun wf_message :: "json \<Rightarrow> bool" where
  "wf_message (JObj kvs) =
     (map_of kvs ''id'' \<noteq> None \<and>
      (case map_of kvs ''payload'' of None \<Rightarrow> True | Some p \<Rightarrow> wf_payload p))"
| "wf_message _ = False"

text \<open>The pieces of a message the statements below speak about.\<close>

fun field :: "json \<Rightarrow> string \<Rightarrow> json option" where
  "field (JObj kvs) k = map_of kvs k"
| "field _ k = None"

definition payload_of :: "json \<Rightarrow> json" where
  "payload_of msg = (case field msg ''payload'' of Some p \<Rightarrow> p | None \<Rightarrow> JObj [])"

definition parts_of :: "json \<Rightarrow> json list option" where
  "parts_of msg =
     (case field (payload_of msg) ''parts'' of Some (JArr ps) \<Rightarrow> Some ps | _ \<Rightarrow> None)"

definition headers_of :: "json \<Rightarrow> json list" where
  "headers_of msg =
     (case field (payload_of msg) ''headers'' of Some (JArr hs) \<Rightarrow> hs | _ \<Rightarrow> [])"

definition is_plain_text :: "json \<Rightarrow> bool" where
  "is_plain_text part = (field part ''mimeType'' = Some (JStr ''text/plain''))"

definition filename_of :: "json \<Rightarrow> json" where
  "filename_of part = (case field part ''filename'' of Some f \<Rightarrow> f | None \<Rightarrow> JNull)"

definition top_level_parts :: "json \<Rightarrow> json list" where
  "top_level_parts msg = (case parts_of msg of Some ps \<Rightarrow> ps | None \<Rightarrow> [])"

text \<open>
  The texts of the parts of a list that are plain text and decode, in the order of the
  list. Only the part's own \<open>mimeType\<close> and \<open>body\<close> are read; nothing below a part is.
\<close>

definition plain_texts :: "pylib \<Rightarrow> json list \<Rightarrow> string list" where
  "plain_texts lib ps =
     List.map_filter (\<lambda>p. if is_plain_text p then decode_body lib p else None) ps"

definition body_text :: "pylib \<Rightarrow> json \<Rightarrow> string" where
  "body_text lib msg =
     (case parts_of msg of
        Some ps \<Rightarrow> (case plain_texts lib ps of [] \<Rightarrow> [] | t # ts \<Rightarrow> t)
      | None \<Rightarrow> (case decode_body lib (payload_of msg) of Some t \<Rightarrow> t | None \<Rightarrow> []))"

text \<open>
  The decoded text of a part (or of a payload), read off the message: \<open>body.data\<close>
  must be there and be a string the decoder accepts. There is no text when the body is
  missing, when the body has no data, when the data is not a string, and when the decoder
  rejects the data.
\<close>

definition part_text :: "pylib \<Rightarrow> json \<Rightarrow> string option" where
  "part_text lib part =
     (case field part ''body'' of
        None \<Rightarrow> None
      | Some b \<Rightarrow>
          (case field b ''data'' of
             None \<Rightarrow> None
           | Some (JStr s) \<Rightarrow>
               (case urlsafe_b64decode lib s of
                  None \<Rightarrow> None
                | Some bytes \<Rightarrow> Some (utf8_ignore lib bytes))
           | Some _ \<Rightarrow> None))"

text \<open>
  Trimming, said without the function that does it: \<open>t\<close> is \<open>s\<close> without a run of
  whitespace at its front and a run of whitespace at its end, and \<open>t\<close> itself neither
  starts nor ends with whitespace.
\<close>

definition is_trim_of :: "pylib \<Rightarrow> string \<Rightarrow> string \<Rightarrow> bool" where
  "is_trim_of lib s t =
     (\<exists>l r. s = l @ t @ r \<and> list_all (isspace lib) l \<and> list_all (isspace lib) r \<and>
            (t = [] \<or> (\<not> isspace lib (hd t) \<and> \<not> isspace lib (last t))))"

text \<open>
  The filenames a list of parts declares: the non-empty strings under \<open>filename\<close>, in the
  order of the list. Gmail gives every part a string for its filename, possibly empty.
\<close>

definition filename_is_text :: "json \<Rightarrow> bool" where
  "filename_is_text part =
     (case field part ''filename'' of None \<Rightarrow> True | Some (JStr s) \<Rightarrow> True | Some _ \<Rightarrow> False)"

definition declared_filenames :: "json list \<Rightarrow> string list" where
  "declared_filenames ps =
     List.map_filter
       (\<lambda>p. case field p ''filename'' of
              Some (JStr s) \<Rightarrow> if s = [] then None else Some s
            | _ \<Rightarrow> None) ps"

text \<open>
  Header lookup as the specification words it: a header is named \<open>n\<close> when its name
  equals \<open>n\<close> up to the case of the letters A to Z, character by character, and the
  value looked up is that of the last header so named.
\<close>

definition same_letter :: "char \<Rightarrow> char \<Rightarrow> bool" where
  "same_letter c d =
     (c = d \<or>
      (65 \<le> (of_char c :: nat) \<and> (of_char c :: nat) \<le> 90 \<and>
         (of_char d :: nat) = of_char c + 32) \<or>
      (65 \<le> (of_char d :: nat) \<and> (of_char d :: nat) \<le> 90 \<and>
         (of_char c :: nat) = of_char d + 32))"

definition equal_ignoring_case :: "string \<Rightarrow> string \<Rightarrow> bool" where
  "equal_ignoring_case s n = list_all2 same_letter s n"

definition header_named :: "string \<Rightarrow> json \<Rightarrow> bool" where
  "header_named n h =
     (case field h ''name'' of Some (JStr s) \<Rightarrow> equal_ignoring_case s n | _ \<Rightarrow> False)"

definition last_header :: "string \<Rightarrow> json list \<Rightarrow> json option" where
  "last_header n hs =
     (case filter (header_named n) hs of
        [] \<Rightarrow> None
      | f # fs \<Rightarrow> field (last (f # fs)) ''value'')"

section \<open>A reference library and example messages\<close>

text \<open>
  The examples below need a concrete library. A character of the model is a code point
  below U+0100. \<open>ref_urlsafe_b64decode\<close> follows CPython's decoder in its default,
  non-strict mode: \<open>-\<close> and \<open>_\<close> stand for \<open>+\<close> and \<open>/\<close>, characters outside the
  alphabet are skipped, decoding stops at the padding that completes a group of four, and
  data that ends inside a group is an error, as is a string with a character that is not
  ASCII. \<open>ref_utf8_ignore\<close> decodes UTF-8 and drops the bytes that are not part of a valid
  sequence, as Python does; a valid sequence for a code point from U+0100 on, which a
  character of the model cannot hold, is dropped too. \<open>ref_isspace\<close> is \<open>str.isspace\<close>
  on the code points below U+0100.
\<close>

definition b64_value :: "char \<Rightarrow> nat option" where
  "b64_value c =
     (let n = (of_char c :: nat) in
      if 65 \<le> n \<and> n \<le> 90 then Some (n - 65)
      else if 97 \<le> n \<and> n \<le> 122 then Some (n - 71)
      else if 48 \<le> n \<and> n \<le> 57 then Some (n + 4)
      else if n = 45 \<or> n = 43 then Some 62
      else if n = 95 \<or> n = 47 then Some 63
      else None)"

record a2b_state =
  quad_pos :: nat
  leftchar :: nat
  pads :: nat
  bin_data :: string

definition a2b_step :: "char \<Rightarrow> a2b_state \<Rightarrow> a2b_state option" where
  "a2b_step c st =
     (if c = CHR ''='' then
        (if 2 \<le> quad_pos st \<and> 4 \<le> quad_pos st + (pads st + 1) then None
         else if 2 \<le> quad_pos st then Some (st\<lparr>pads := pads st + 1\<rparr>)
         else Some st)
      else
        (case b64_value c of
           None \<Rightarrow> Some st
         | Some v \<Rightarrow>
             Some (if quad_pos st = 0 then
                     st\<lparr>quad_pos := 1, leftchar := v, pads := 0\<rparr>
                   else if quad_pos st = 1 then
                     st\<lparr>quad_pos := 2, leftchar := v mod 16, pads := 0,
                        bin_data := bin_data st @ [char_of (leftchar st * 4 + v div 16)]\<rparr>
                   else if quad_pos st = 2 then
                     st\<lparr>quad_pos := 3, leftchar := v mod 4, pads := 0,
                        bin_data := bin_data st @ [char_of (leftchar st * 16 + v div 4)]\<rparr>
                   else
                     st\<lparr>quad_pos := 0, leftchar := 0, pads := 0,
                        bin_data := bin_data st @ [char_of (leftchar st * 64 + v)]\<rparr>)))"

fun a2b_loop :: "string \<Rightarrow> a2b_state \<Rightarrow> string option" where
  "a2b_loop [] st = (if quad_pos st \<noteq> 0 then None else Some (bin_data st))"
| "a2b_loop (c # cs) st =
     (case a2b_step c st of None \<Rightarrow> Some (bin_data st) | Some st' \<Rightarrow> a2b_loop cs st')"

definition ref_urlsafe_b64decode :: "string \<Rightarrow> string option" where
  "ref_urlsafe_b64decode s =
     (if list_ex (\<lambda>c. 128 \<le> (of_char c :: nat)) s then None
      else a2b_loop s \<lparr>quad_pos = 0, leftchar = 0, pads = 0, bin_data = []\<rparr>)"

fun ref_utf8_ignore :: "string \<Rightarrow> string" where
  "ref_utf8_ignore [] = []"
| "ref_utf8_ignore [b] = (if (of_char b :: nat) < 128 then [b] else [])"
| "ref_utf8_ignore (b # c # rest) =
     (if (of_char b :: nat) < 128 then b # ref_utf8_ignore (c # rest)
      else if ((of_char b :: nat) = 194 \<or> (of_char b :: nat) = 195) \<and>
              128 \<le> (of_char c :: nat) \<and> (of_char c :: nat) < 192
        then char_of (((of_char b :: nat) - 192) * 64 + ((of_char c :: nat) - 128))
               # ref_utf8_ignore rest
      else ref_utf8_ignore (c # rest))"

definition ref_isspace :: "char \<Rightarrow> bool" where
  "ref_isspace c =
     (let n = (of_char c :: nat)
      in (9 \<le> n \<and> n \<le> 13) \<or> (28 \<le> n \<and> n \<le> 32) \<or> n = 133 \<or> n = 160)"

definition ref_lib :: pylib where
  "ref_lib = \<lparr>urlsafe_b64decode = ref_urlsafe_b64decode,
              utf8_ignore = ref_utf8_ignore,
              isspace = ref_isspace\<rparr>"

text \<open>
  Parts: an HTML part, a plain-text part whose data \<open>SGVsbG8\<close> lacks its padding, a
  plain-text part whose body has no data, a plain-text part without a body, a plain-text
  part holding \<open>Hello\<close> after two blanks and before three, a plain-text part holding
  \<open>Second\<close>, a PDF attachment, a multipart part whose only plain text (\<open>Hello\<close>) is
  nested in it, and a multipart part with an inline image nested in it.
\<close>

definition part_html :: json where
  "part_html =
     JObj [(''mimeType'', JStr ''text/html''), (''filename'', JStr []),
           (''body'', JObj [(''size'', JInt 12), (''data'', JStr ''PHA-SGVsbG88L3A-'')])]"

definition part_broken :: json where
  "part_broken =
     JObj [(''mimeType'', JStr ''text/plain''), (''filename'', JStr []),
           (''body'', JObj [(''size'', JInt 5), (''data'', JStr ''SGVsbG8'')])]"

definition part_no_data :: json where
  "part_no_data =
     JObj [(''mimeType'', JStr ''text/plain''), (''filename'', JStr []),
           (''body'', JObj [(''size'', JInt 0)])]"

definition part_no_body :: json where
  "part_no_body = JObj [(''mimeType'', JStr ''text/plain''), (''filename'', JStr [])]"

definition part_hello :: json where
  "part_hello =
     JObj [(''mimeType'', JStr ''text/plain''), (''filename'', JStr []),
           (''body'', JObj [(''size'', JInt 10), (''data'', JStr ''ICBIZWxsbyAgIA=='')])]"

definition part_second :: json where
  "part_second =
     JObj [(''mimeType'', JStr ''text/plain''),
           (''body'', JObj [(''size'', JInt 6), (''data'', JStr ''U2Vjb25k'')])]"

definition part_pdf :: json where
  "part_pdf =
     JObj [(''mimeType'', JStr ''application/pdf''), (''filename'', JStr ''invoice.pdf''),
           (''body'', JObj [(''attachmentId'', JStr ''ANGjdJ8w''), (''size'', JInt 48213)])]"

definition part_inner :: json where
  "part_inner =
     JObj [(''mimeType'', JStr ''text/plain''), (''filename'', JStr []),
           (''body'', JObj [(''size'', JInt 5), (''data'', JStr ''SGVsbG8='')])]"

definition part_nested :: json where
  "part_nested =
     JObj [(''mimeType'', JStr ''multipart/alternative''), (''filename'', JStr []),
           (''body'', JObj [(''size'', JInt 0)]),
           (''parts'', JArr [part_inner, part_html])]"

definition part_image :: json where
  "part_image =
     JObj [(''mimeType'', JStr ''image/png''), (''filename'', JStr ''image001.png''),
           (''body'', JObj [(''attachmentId'', JStr ''ANGjdJ9x''), (''size'', JInt 9120)])]"

definition part_related :: json where
  "part_related =
     JObj [(''mimeType'', JStr ''multipart/related''), (''filename'', JStr []),
           (''body'', JObj [(''size'', JInt 0)]),
           (''parts'', JArr [part_html, part_image])]"

definition header :: "string \<Rightarrow> string \<Rightarrow> json" where
  "header n v = JObj [(''name'', JStr n), (''value'', JStr v)]"

definition example_headers :: "json list" where
  "example_headers =
     [header ''From'' ''a@x.com'', header ''SUBJECT'' ''Draft'', header ''To'' ''b@y.org'',
      header ''Subject'' ''Hi'', header ''date'' ''Mon, 1 Jan 2024'']"

definition mixed_case_headers :: "json list" where
  "mixed_case_headers =
     [header ''FROM'' ''first@x.com'', header ''Subject'' ''Draft'',
      header ''fRoM'' ''a@x.com'', header ''X-Date'' ''never'', header ''Fromage'' ''brie'',
      header ''sUBJECt'' ''Hi'', header ''To'' ''b@y.org'']"

definition message_with :: "(string \<times> json) list \<Rightarrow> json" where
  "message_with payload_entries =
     JObj [(''id'', JStr ''18c2f0a1''), (''labelIds'', JArr [JStr ''INBOX'', JStr ''UNREAD'']),
           (''snippet'', JStr ''Hello''), (''payload'', JObj payload_entries)]"

definition msg_parts :: json where
  "msg_parts =
     message_with
       [(''mimeType'', JStr ''multipart/mixed''), (''headers'', JArr example_headers),
        (''parts'', JArr [part_html, part_broken, part_no_data, part_no_body, part_hello,
                          part_second, part_pdf])]"

definition msg_nested :: json where
  "msg_nested =
     message_with
       [(''mimeType'', JStr ''multipart/mixed''), (''headers'', JArr example_headers),
        (''parts'', JArr [part_nested, part_pdf])]"

definition msg_inline_image :: json where
  "msg_inline_image =
     message_with
       [(''mimeType'', JStr ''multipart/mixed''), (''headers'', JArr example_headers),
        (''parts'', JArr [part_related, part_pdf])]"

definition msg_mixed_case :: json where
  "msg_mixed_case =
     message_with [(''mimeType'', JStr ''text/plain''), (''headers'', JArr mixed_case_headers)]"

definition msg_no_plain :: json where
  "msg_no_plain =
     message_with
       [(''mimeType'', JStr ''multipart/mixed''), (''headers'', JArr example_headers),
        (''parts'', JArr [part_html, part_pdf])]"

definition msg_single :: json where
  "msg_single =
     message_with
       [(''mimeType'', JStr ''text/plain''), (''headers'', JArr example_headers),
        (''body'', JObj [(''size'', JInt 10), (''data'', JStr ''ICBIZWxsbyAgIA=='')])]"

definition msg_bare :: json where
  "msg_bare = JObj [(''id'', JStr ''18c2f0a1'')]"

definition msg_without_id :: json where
  "msg_without_id =
     JObj [(''snippet'', JStr ''Hello''),
           (''payload'', JObj [(''mimeType'', JStr ''text/plain''),
              (''body'', JObj [(''size'', JInt 5), (''data'', JStr ''SGVsbG8='')])])]"

text \<open>A record without an id, as only a caller other than \<open>main\<close> could hand to the writer.\<close>

definition record_without_id :: dict where
  "record_without_id = [(''body'', JStr ''Hello''), (''adjuntos'', JArr [])]"

text \<open>Worlds and command lines for the runs of \<open>main\<close>.\<close>

definition world_ok :: world where
  "world_ok =
     \<lparr>token_exists = True,
      credentials_error = None,
      build_error = None,
      list_response = Inr (JObj [(''messages'', JArr [JObj [(''id'', JStr ''18c2f0a1'')]]),
                                 (''resultSizeEstimate'', JInt 1)]),
      get_response = (\<lambda>i. if i = JStr ''18c2f0a1'' then Inr msg_parts else Inl ProviderError),
      makedirs_error = None,
      write_error = (\<lambda>c. None),
      clock_iso = ''2025-10-01T08:00:00+00:00'',
      clock_timestamp = ''1759305600.0''\<rparr>"

definition world_no_token :: world where
  "world_no_token = world_ok\<lparr>token_exists := False\<rparr>"

definition world_empty_inbox :: world where
  "world_empty_inbox =
     world_ok\<lparr>list_response := Inr (JObj [(''resultSizeEstimate'', JInt 0)])\<rparr>"

definition world_missing_id :: world where
  "world_missing_id = world_ok\<lparr>get_response := (\<lambda>i. Inr msg_without_id)\<rparr>"

definition args_none :: cli_args where
  "args_none = \<lparr>arg_id = None, arg_last = False\<rparr>"

definition args_last :: cli_args where
  "args_last = \<lparr>arg_id = None, arg_last = True\<rparr>"

definition args_id :: cli_args where
  "args_id = \<lparr>arg_id = Some ''18c2f0a1'', arg_last = False\<rparr>"

section \<open>Properties of the loops\<close>

lemma map_of_setitem: "map_of (setitem k v d) = (map_of d)(k \<mapsto> v)"
  by (induction d) auto

lemma lower_literals:
  "lower ''From'' = ''from''" "lower ''Subject'' = ''subject''" "lower ''Date'' = ''date''"
  by code_simp+

lemma strip_empty: "strip lib [] = []"
  by (simp add: strip_def)

lemma trim_ends:
  fixes P :: "'a \<Rightarrow> bool"
  defines "t \<equiv> \<lambda>s. rev (dropWhile P (rev (dropWhile P s)))"
  shows "s = takeWhile P s @ t s @ rev (takeWhile P (rev (dropWhile P s)))"
    and "t s \<noteq> [] \<Longrightarrow> \<not> P (hd (t s)) \<and> \<not> P (last (t s))"
proof -
  let ?rest = "dropWhile P s"
  have "rev (takeWhile P (rev ?rest) @ dropWhile P (rev ?rest)) = ?rest"
    by (simp only: takeWhile_dropWhile_id rev_rev_ident)
  then have rest: "?rest = t s @ rev (takeWhile P (rev ?rest))"
    by (simp only: rev_append t_def)
  have "s = takeWhile P s @ ?rest" by simp
  with rest show "s = takeWhile P s @ t s @ rev (takeWhile P (rev (dropWhile P s)))"
    by simp
  assume ne: "t s \<noteq> []"
  then have d: "dropWhile P (rev ?rest) \<noteq> []" by (simp add: t_def)
  then have r: "?rest \<noteq> []"
    by (metis dropWhile.simps(1) rev.simps(1))
  have "last (t s) = hd (dropWhile P (rev ?rest))"
    using d by (simp add: t_def last_rev)
  then have l: "\<not> P (last (t s))"
    using hd_dropWhile [OF d] by simp
  have "hd (t s) = hd ?rest"
    using rest ne by (metis hd_append2)
  then have "\<not> P (hd (t s))"
    using hd_dropWhile [OF r] by simp
  with l show "\<not> P (hd (t s)) \<and> \<not> P (last (t s))" by simp
qed

text \<open>\<open>strip\<close> trims, and trimming has one result only.\<close>

lemma strip_is_trim: "is_trim_of lib s (strip lib s)"
proof -
  let ?P = "isspace lib"
  let ?l = "takeWhile ?P s"
  let ?r = "rev (takeWhile ?P (rev (dropWhile ?P s)))"
  have 1: "s = ?l @ strip lib s @ ?r"
    using trim_ends(1) [of s ?P] by (simp add: strip_def)
  have 2: "list_all ?P ?l" "list_all ?P ?r"
    by (auto simp: list_all_iff dest: set_takeWhileD)
  have 3: "strip lib s = [] \<or>
      (\<not> ?P (hd (strip lib s)) \<and> \<not> ?P (last (strip lib s)))"
    using trim_ends(2) [of ?P s] by (auto simp: strip_def)
  show ?thesis
    unfolding is_trim_of_def using 1 2 3 by blast
qed

lemma all_prefix_unique:
  fixes P :: "'a \<Rightarrow> bool"
  assumes "l @ x # xs = l' @ y # ys"
    and "list_all P l" "list_all P l'" "\<not> P x" "\<not> P y"
  shows "l = l' \<and> x # xs = y # ys"
proof -
  have "takeWhile P (l @ x # xs) = l" "takeWhile P (l' @ y # ys) = l'"
    using assms(2-5) by (simp_all add: list_all_iff takeWhile_tail)
  with assms(1) have "l = l'" by simp
  with assms(1) show ?thesis by simp
qed

lemma is_trim_of_unique:
  assumes "is_trim_of lib s t" and "is_trim_of lib s t'"
  shows "t = t'"
proof -
  let ?P = "isspace lib"
  from assms(1) obtain l r where
    s: "s = l @ t @ r" and l: "list_all ?P l" and r: "list_all ?P r" and
    t: "t = [] \<or> (\<not> ?P (hd t) \<and> \<not> ?P (last t))"
    unfolding is_trim_of_def by blast
  from assms(2) obtain l' r' where
    s': "s = l' @ t' @ r'" and l': "list_all ?P l'" and r': "list_all ?P r'" and
    t': "t' = [] \<or> (\<not> ?P (hd t') \<and> \<not> ?P (last t'))"
    unfolding is_trim_of_def by blast
  show ?thesis
  proof (cases "t = []")
    case True
    with s l r have "list_all ?P s" by simp
    with s' have "list_all ?P t'" by simp
    with t' have "t' = []"
      by (cases t') (auto simp: list_all_iff)
    with True show ?thesis by simp
  next
    case False
    show ?thesis
    proof (cases "t' = []")
      case True
      with s' l' r' have "list_all ?P s" by simp
      with s have "list_all ?P t" by simp
      with t False show ?thesis
        by (cases t) (auto simp: list_all_iff)
    next
      case ne': False
      from False obtain x xs where tx: "t = x # xs" by (cases t) auto
      from ne' obtain y ys where ty: "t' = y # ys" by (cases t') auto
      have "l @ x # (xs @ r) = l' @ y # (ys @ r')"
        using s s' tx ty by simp
      from all_prefix_unique [OF this l l'] t t' tx ty
      have eq: "t @ r = t' @ r'" by simp
      from False obtain a as where ta: "rev t = a # as" by (cases "rev t") auto
      from ne' obtain b bs where tb: "rev t' = b # bs" by (cases "rev t'") auto
      have la: "a = last t"
        using ta by (simp add: last_rev [symmetric, of "rev t", simplified])
      have lb: "b = last t'"
        using tb by (simp add: last_rev [symmetric, of "rev t'", simplified])
      have e: "rev r @ a # as = rev r' @ b # bs"
        using eq ta tb by (metis rev_append)
      have rr: "list_all ?P (rev r)" "list_all ?P (rev r')"
        using r r' by simp_all
      have na: "\<not> ?P a" "\<not> ?P b"
        using t t' False ne' la lb by simp_all
      from all_prefix_unique [OF e rr na] ta tb
      have "rev t = rev t'" by simp
      then show ?thesis by simp
    qed
  qed
qed

text \<open>\<open>lower\<close> makes two names equal exactly when they are equal up to case.\<close>

lemma of_char_lower_char:
  "(of_char (lower_char c) :: nat) =
     (if 65 \<le> (of_char c :: nat) \<and> (of_char c :: nat) \<le> 90
      then of_char c + 32 else of_char c)"
  by (simp add: lower_char_def)

lemma lower_char_eq: "lower_char c = lower_char d \<longleftrightarrow> same_letter c d"
proof -
  have "lower_char c = lower_char d \<longleftrightarrow>
      (of_char (lower_char c) :: nat) = of_char (lower_char d)"
    by simp
  also have "\<dots> \<longleftrightarrow> same_letter c d"
    unfolding of_char_lower_char same_letter_def
    using of_char_eq_iff [of c d, where ?'a = nat]
    by (auto simp del: of_char_eq_iff)
  finally show ?thesis .
qed

lemma lower_eq: "lower s = lower n \<longleftrightarrow> equal_ignoring_case s n"
proof -
  have "lower s = lower n \<longleftrightarrow> list_all2 (=) (map lower_char s) (map lower_char n)"
    by (simp add: lower_def list.rel_eq)
  also have "\<dots> \<longleftrightarrow> list_all2 (\<lambda>c d. lower_char c = lower_char d) s n"
    by (simp add: list_all2_map1 list_all2_map2)
  also have "\<dots> \<longleftrightarrow> equal_ignoring_case s n"
    by (simp add: lower_char_eq equal_ignoring_case_def)
  finally show ?thesis .
qed

lemma named_literals:
  "equal_ignoring_case s ''From'' \<longleftrightarrow> lower s = ''from''"
  "equal_ignoring_case s ''Subject'' \<longleftrightarrow> lower s = ''subject''"
  "equal_ignoring_case s ''Date'' \<longleftrightarrow> lower s = ''date''"
proof -
  show "equal_ignoring_case s ''From'' \<longleftrightarrow> lower s = ''from''"
    using lower_eq [of s "''From''"] by (simp only: lower_literals)
  show "equal_ignoring_case s ''Subject'' \<longleftrightarrow> lower s = ''subject''"
    using lower_eq [of s "''Subject''"] by (simp only: lower_literals)
  show "equal_ignoring_case s ''Date'' \<longleftrightarrow> lower s = ''date''"
    using lower_eq [of s "''Date''"] by (simp only: lower_literals)
qed

lemma py_subscript_field:
  "py_subscript x k =
     (case field x k of
        Some v \<Rightarrow> Inr v
      | None \<Rightarrow> Inl (if is_dict x then KeyError else TypeError))"
  by (cases x) (simp_all split: option.splits)

lemma decode_body_field:
  "decode_body lib x =
     (case field x ''body'' of
        Some b \<Rightarrow>
          (case field b ''data'' of
             Some (JStr s) \<Rightarrow> map_option (utf8_ignore lib) (urlsafe_b64decode lib s)
           | _ \<Rightarrow> None)
      | None \<Rightarrow> None)"
  by (simp add: decode_body_def py_subscript_field split: option.splits json.splits)

lemma decode_body_part_text: "decode_body lib x = part_text lib x"
  by (simp add: decode_body_def part_text_def py_subscript_field
      split: option.splits json.splits)

lemma wf_header_value: "wf_header h \<Longrightarrow> \<exists>v. field h ''value'' = Some v"
  by (cases h) (auto split: option.splits json.splits)

lemma header_step_wf:
  assumes "wf_header h"
  shows "\<exists>d'. header_step h d = Inr d' \<and>
    map_of d' ''remitente'' =
      (if header_named ''From'' h then field h ''value'' else map_of d ''remitente'') \<and>
    map_of d' ''asunto'' =
      (if header_named ''Subject'' h then field h ''value'' else map_of d ''asunto'') \<and>
    map_of d' ''fecha_correo'' =
      (if header_named ''Date'' h then field h ''value'' else map_of d ''fecha_correo'') \<and>
    (\<forall>k. k \<noteq> ''remitente'' \<and> k \<noteq> ''asunto'' \<and> k \<noteq> ''fecha_correo'' \<longrightarrow>
         map_of d' k = map_of d k)"
proof (cases h)
  case (JObj kvs)
  with assms obtain s v where
    s: "map_of kvs ''name'' = Some (JStr s)" and v: "map_of kvs ''value'' = Some v"
    by (auto split: option.splits json.splits)
  show ?thesis
    using s v JObj
    by (simp add: header_step_def header_named_def named_literals map_of_setitem)
qed (use assms in simp_all)

lemma header_step_keeps_id:
  "header_step h d = Inr d' \<Longrightarrow> map_of d' ''id'' = map_of d ''id''"
  by (auto simp: header_step_def map_of_setitem split: sum.splits if_splits)

lemma header_loop_keeps_id:
  "header_loop hs d = Inr d' \<Longrightarrow> map_of d' ''id'' = map_of d ''id''"
proof (induction hs arbitrary: d)
  case Nil
  then show ?case by simp
next
  case (Cons h hs)
  then obtain d1 where step: "header_step h d = Inr d1" and loop: "header_loop hs d1 = Inr d'"
    by (auto split: sum.splits)
  from Cons.IH [OF loop] header_step_keeps_id [OF step] show ?case by simp
qed

lemma last_header_Cons:
  assumes "list_all wf_header hs"
  shows "last_header n (h # hs) =
     (case last_header n hs of
        Some v \<Rightarrow> Some v
      | None \<Rightarrow> if header_named n h then field h ''value'' else None)"
proof (cases "filter (header_named n) hs")
  case Nil
  then show ?thesis by (simp add: last_header_def)
next
  case (Cons f fs)
  then have "last (f # fs) \<in> set hs"
    by (metis filter_is_subset last_in_set list.distinct(1) subsetD)
  with assms have "wf_header (last (f # fs))"
    by (simp add: list_all_iff)
  then obtain v where "field (last (f # fs)) ''value'' = Some v"
    using wf_header_value by blast
  with Cons show ?thesis
    by (simp add: last_header_def)
qed

lemma header_loop_wf:
  assumes "list_all wf_header hs"
  shows "\<exists>d'. header_loop hs d = Inr d' \<and>
    map_of d' ''remitente'' =
      (case last_header ''From'' hs of Some v \<Rightarrow> Some v | None \<Rightarrow> map_of d ''remitente'') \<and>
    map_of d' ''asunto'' =
      (case last_header ''Subject'' hs of Some v \<Rightarrow> Some v | None \<Rightarrow> map_of d ''asunto'') \<and>
    map_of d' ''fecha_correo'' =
      (case last_header ''Date'' hs of Some v \<Rightarrow> Some v | None \<Rightarrow> map_of d ''fecha_correo'') \<and>
    (\<forall>k. k \<noteq> ''remitente'' \<and> k \<noteq> ''asunto'' \<and> k \<noteq> ''fecha_correo'' \<longrightarrow>
         map_of d' k = map_of d k)"
  using assms
proof (induction hs arbitrary: d)
  case Nil
  then show ?case by (simp add: last_header_def)
next
  case (Cons h hs)
  then have wh: "wf_header h" and whs: "list_all wf_header hs" by simp_all
  from header_step_wf [OF wh, of d] obtain d1 where
    step: "header_step h d = Inr d1" and
    r1: "map_of d1 ''remitente'' =
           (if header_named ''From'' h then field h ''value'' else map_of d ''remitente'')" and
    a1: "map_of d1 ''asunto'' =
           (if header_named ''Subject'' h then field h ''value'' else map_of d ''asunto'')" and
    f1: "map_of d1 ''fecha_correo'' =
           (if header_named ''Date'' h then field h ''value'' else map_of d ''fecha_correo'')" and
    o1: "\<forall>k. k \<noteq> ''remitente'' \<and> k \<noteq> ''asunto'' \<and> k \<noteq> ''fecha_correo'' \<longrightarrow>
           map_of d1 k = map_of d k"
    by blast
  from Cons.IH [OF whs, of d1] obtain d' where
    loop: "header_loop hs d1 = Inr d'" and
    r2: "map_of d' ''remitente'' =
           (case last_header ''From'' hs of Some v \<Rightarrow> Some v | None \<Rightarrow> map_of d1 ''remitente'')" and
    a2: "map_of d' ''asunto'' =
           (case last_header ''Subject'' hs of Some v \<Rightarrow> Some v | None \<Rightarrow> map_of d1 ''asunto'')" and
    f2: "map_of d' ''fecha_correo'' =
           (case last_header ''Date'' hs of Some v \<Rightarrow> Some v | None \<Rightarrow> map_of d1 ''fecha_correo'')" and
    o2: "\<forall>k. k \<noteq> ''remitente'' \<and> k \<noteq> ''asunto'' \<and> k \<noteq> ''fecha_correo'' \<longrightarrow>
           map_of d' k = map_of d1 k"
    by blast
  obtain v where v: "field h ''value'' = Some v"
    using wf_header_value [OF wh] by blast
  have run: "header_loop (h # hs) d = Inr d'"
    using step loop by simp
  have r: "map_of d' ''remitente'' =
      (case last_header ''From'' (h # hs) of Some v \<Rightarrow> Some v | None \<Rightarrow> map_of d ''remitente'')"
    using r1 r2 v by (simp add: last_header_Cons [OF whs] split: option.splits)
  have a: "map_of d' ''asunto'' =
      (case last_header ''Subject'' (h # hs) of Some v \<Rightarrow> Some v | None \<Rightarrow> map_of d ''asunto'')"
    using a1 a2 v by (simp add: last_header_Cons [OF whs] split: option.splits)
  have f: "map_of d' ''fecha_correo'' =
      (case last_header ''Date'' (h # hs) of Some v \<Rightarrow> Some v | None \<Rightarrow> map_of d ''fecha_correo'')"
    using f1 f2 v by (simp add: last_header_Cons [OF whs] split: option.splits)
  have o: "\<forall>k. k \<noteq> ''remitente'' \<and> k \<noteq> ''asunto'' \<and> k \<noteq> ''fecha_correo'' \<longrightarrow>
      map_of d' k = map_of d k"
    using o1 o2 by simp
  show ?case
    using run r a f o by blast
qed

lemma body_loop_wf:
  "list_all is_dict ps \<Longrightarrow>
   body_loop lib ps = Inr (case plain_texts lib ps of [] \<Rightarrow> [] | t # ts \<Rightarrow> t)"
proof (induction ps)
  case Nil
  then show ?case by (simp add: plain_texts_def List.map_filter_simps)
next
  case (Cons p ps)
  then obtain kvs where p: "p = JObj kvs" by (cases p) simp_all
  with Cons show ?case
    by (simp add: plain_texts_def List.map_filter_simps is_plain_text_def
        split: option.splits)
qed

lemma attachments_loop_wf:
  "list_all is_dict ps \<Longrightarrow>
   attachments_loop ps acc = Inr (acc @ filter truthy (map filename_of ps))"
proof (induction ps arbitrary: acc)
  case Nil
  then show ?case by simp
next
  case (Cons p ps)
  then obtain kvs where p: "p = JObj kvs" by (cases p) simp_all
  with Cons show ?case
    by (simp add: filename_of_def split: option.splits)
qed

lemma plain_texts_append:
  "plain_texts lib (xs @ ys) = plain_texts lib xs @ plain_texts lib ys"
  by (simp add: plain_texts_def List.map_filter_def)

lemma plain_texts_none:
  "\<forall>q\<in>set ps. \<not> (is_plain_text q \<and> decode_body lib q \<noteq> None) \<Longrightarrow> plain_texts lib ps = []"
  by (induction ps) (auto simp: plain_texts_def List.map_filter_simps)

section \<open>\<open>parse_email\<close> on a well-formed message\<close>

lemma wf_payload_of:
  assumes "wf_message msg"
  shows "wf_payload (payload_of msg)"
    and "py_get msg ''payload'' (JObj []) = Inr (payload_of msg)"
  using assms by (cases msg; simp add: payload_of_def split: option.splits)+

lemma headers_wf:
  assumes "wf_payload p"
  shows "py_get p ''headers'' (JArr []) =
           Inr (JArr (case field p ''headers'' of Some (JArr hs) \<Rightarrow> hs | _ \<Rightarrow> []))"
    and "list_all wf_header (case field p ''headers'' of Some (JArr hs) \<Rightarrow> hs | _ \<Rightarrow> [])"
  using assms by (cases p; simp split: option.splits json.splits)+

lemma extract_body_wf:
  assumes "wf_payload p"
  shows "extract_body lib p =
     Inr (case field p ''parts'' of
            Some (JArr ps) \<Rightarrow> (case plain_texts lib ps of [] \<Rightarrow> [] | t # ts \<Rightarrow> t)
          | _ \<Rightarrow> (case decode_body lib p of Some t \<Rightarrow> t | None \<Rightarrow> []))"
  using assms
  by (cases p; simp add: extract_body_def body_loop_wf split: option.splits json.splits)

lemma detect_attachments_wf:
  assumes "wf_payload p"
  shows "detect_attachments p =
     Inr (filter truthy (map filename_of
            (case field p ''parts'' of Some (JArr ps) \<Rightarrow> ps | _ \<Rightarrow> [])))"
  using assms
  by (cases p; simp add: detect_attachments_def attachments_loop_wf
      split: option.splits json.splits)

lemma parse_email_wf:
  assumes "wf_message msg"
  shows "\<exists>msg_id data1.
     field msg ''id'' = Some msg_id \<and>
     header_loop (headers_of msg) [(''id'', msg_id), (''fecha_extraccion'', JStr now)] = Inr data1 \<and>
     parse_email lib now msg =
       Inr (setitem ''adjuntos'' (JArr (filter truthy (map filename_of (top_level_parts msg))))
           (setitem ''labels'' (case field msg ''labelIds'' of Some l \<Rightarrow> l | None \<Rightarrow> JArr [])
           (setitem ''snippet'' (case field msg ''snippet'' of Some s \<Rightarrow> s | None \<Rightarrow> JStr [])
           (setitem ''body'' (JStr (strip lib (body_text lib msg))) data1))))"
proof -
  obtain kvs where msg: "msg = JObj kvs"
    using assms by (cases msg) simp_all
  with assms obtain msg_id where mid: "map_of kvs ''id'' = Some msg_id"
    by auto
  let ?p = "payload_of msg"
  have wp: "wf_payload ?p" and gp: "py_get msg ''payload'' (JObj []) = Inr ?p"
    using wf_payload_of [OF assms] by simp_all
  have gh: "py_get ?p ''headers'' (JArr []) = Inr (JArr (headers_of msg))"
    and wh: "list_all wf_header (headers_of msg)"
    using headers_wf [OF wp] by (simp_all add: headers_of_def)
  obtain data1 where
    hl: "header_loop (headers_of msg) [(''id'', msg_id), (''fecha_extraccion'', JStr now)] = Inr data1"
    using header_loop_wf [OF wh] by blast
  have eb: "extract_body lib ?p = Inr (body_text lib msg)"
    using extract_body_wf [OF wp]
    by (simp add: body_text_def parts_of_def split: option.splits json.splits)
  have da: "detect_attachments ?p = Inr (filter truthy (map filename_of (top_level_parts msg)))"
    using detect_attachments_wf [OF wp]
    by (simp add: top_level_parts_def parts_of_def split: option.splits json.splits)
  have "parse_email lib now msg =
       Inr (setitem ''adjuntos'' (JArr (filter truthy (map filename_of (top_level_parts msg))))
           (setitem ''labels'' (case field msg ''labelIds'' of Some l \<Rightarrow> l | None \<Rightarrow> JArr [])
           (setitem ''snippet'' (case field msg ''snippet'' of Some s \<Rightarrow> s | None \<Rightarrow> JStr [])
           (setitem ''body'' (JStr (strip lib (body_text lib msg))) data1))))"
    unfolding parse_email_def gp
    using gh hl eb da mid msg
    by (simp split: option.splits)
  with hl mid msg show ?thesis by simp
qed

lemma parse_email_body:
  assumes "wf_message msg"
  shows "\<exists>data. parse_email lib now msg = Inr data \<and>
           map_of data ''body'' = Some (JStr (strip lib (body_text lib msg)))"
proof -
  from parse_email_wf [OF assms, of now lib] obtain msg_id data1 where
    "parse_email lib now msg =
       Inr (setitem ''adjuntos'' (JArr (filter truthy (map filename_of (top_level_parts msg))))
           (setitem ''labels'' (case field msg ''labelIds'' of Some l \<Rightarrow> l | None \<Rightarrow> JArr [])
           (setitem ''snippet'' (case field msg ''snippet'' of Some s \<Rightarrow> s | None \<Rightarrow> JStr [])
           (setitem ''body'' (JStr (strip lib (body_text lib msg))) data1))))"
    by blast
  then show ?thesis
    by (simp add: map_of_setitem)
qed

section \<open>The examples, evaluated\<close>

lemma wf_examples:
  "wf_message msg_parts" "wf_message msg_nested" "wf_message msg_no_plain"
  "wf_message msg_single" "wf_message msg_bare" "wf_message msg_inline_image"
  "wf_message msg_mixed_case"
  by code_simp+

lemma parts_of_examples:
  "parts_of msg_parts =
     Some ([part_html, part_broken, part_no_data, part_no_body] @
           part_hello # [part_second, part_pdf])"
  "parts_of msg_nested = Some [part_nested, part_pdf]"
  "parts_of msg_no_plain = Some [part_html, part_pdf]"
  "parts_of msg_inline_image = Some [part_related, part_pdf]"
  by code_simp+

lemma decode_examples:
  "decode_body ref_lib part_hello = Some ''  Hello   ''"
  "decode_body ref_lib part_inner = Some ''Hello''"
  "decode_body ref_lib part_broken = None"
  "strip ref_lib ''  Hello   '' = ''Hello''"
  by code_simp+

lemma plain_examples:
  "is_plain_text part_hello" "is_plain_text part_inner"
  "\<not> is_plain_text part_html" "is_plain_text part_broken"
  "is_plain_text part_no_data" "is_plain_text part_no_body"
  "\<forall>p\<in>set [part_html, part_pdf]. \<not> is_plain_text p"
  by code_simp+

lemma part_text_examples:
  "part_text ref_lib part_hello = Some ''  Hello   ''"
  "field part_broken ''body'' =
     Some (JObj [(''size'', JInt 5), (''data'', JStr ''SGVsbG8'')])"
  "urlsafe_b64decode ref_lib ''SGVsbG8'' = None"
  "part_text ref_lib part_broken = None"
  "field part_no_data ''body'' = Some (JObj [(''size'', JInt 0)])"
  "part_text ref_lib part_no_data = None"
  "field part_no_body ''body'' = None"
  "part_text ref_lib part_no_body = None"
  by code_simp+

lemma skipped_examples:
  "\<forall>q\<in>set [part_html, part_broken, part_no_data, part_no_body].
     \<not> is_plain_text q \<or> part_text ref_lib q = None"
  by code_simp

lemma parse_msg_parts:
  "parse_email ref_lib ''2025-10-01T08:00:00+00:00'' msg_parts =
     Inr [(''id'', JStr ''18c2f0a1''),
          (''fecha_extraccion'', JStr ''2025-10-01T08:00:00+00:00''),
          (''remitente'', JStr ''a@x.com''), (''asunto'', JStr ''Hi''),
          (''fecha_correo'', JStr ''Mon, 1 Jan 2024''),
          (''body'', JStr ''Hello''), (''snippet'', JStr ''Hello''),
          (''labels'', JArr [JStr ''INBOX'', JStr ''UNREAD'']),
          (''adjuntos'', JArr [JStr ''invoice.pdf''])]"
  by code_simp

lemma parse_msg_nested:
  "parse_email ref_lib ''2025-10-01T08:00:00+00:00'' msg_nested =
     Inr [(''id'', JStr ''18c2f0a1''),
          (''fecha_extraccion'', JStr ''2025-10-01T08:00:00+00:00''),
          (''remitente'', JStr ''a@x.com''), (''asunto'', JStr ''Hi''),
          (''fecha_correo'', JStr ''Mon, 1 Jan 2024''),
          (''body'', JStr []), (''snippet'', JStr ''Hello''),
          (''labels'', JArr [JStr ''INBOX'', JStr ''UNREAD'']),
          (''adjuntos'', JArr [JStr ''invoice.pdf''])]"
  by code_simp

lemma parse_msg_inline_image:
  "parse_email ref_lib ''2025-10-01T08:00:00+00:00'' msg_inline_image =
     Inr [(''id'', JStr ''18c2f0a1''),
          (''fecha_extraccion'', JStr ''2025-10-01T08:00:00+00:00''),
          (''remitente'', JStr ''a@x.com''), (''asunto'', JStr ''Hi''),
          (''fecha_correo'', JStr ''Mon, 1 Jan 2024''),
          (''body'', JStr []), (''snippet'', JStr ''Hello''),
          (''labels'', JArr [JStr ''INBOX'', JStr ''UNREAD'']),
          (''adjuntos'', JArr [JStr ''invoice.pdf''])]"
  by code_simp

lemma nested_examples:
  "field part_nested ''parts'' = Some (JArr [part_inner, part_html])"
  "field part_nested ''mimeType'' = Some (JStr ''multipart/alternative'')"
  "field part_related ''parts'' = Some (JArr [part_html, part_image])"
  "field part_image ''filename'' = Some (JStr ''image001.png'')"
  by code_simp+

lemma no_parts_examples:
  "field (payload_of msg_single) ''parts'' = None"
  "field (payload_of msg_single) ''body'' =
     Some (JObj [(''size'', JInt 10), (''data'', JStr ''ICBIZWxsbyAgIA=='')])"
  "urlsafe_b64decode ref_lib ''ICBIZWxsbyAgIA=='' = Some ''  Hello   ''"
  "utf8_ignore ref_lib ''  Hello   '' = ''  Hello   ''"
  "strip ref_lib (utf8_ignore ref_lib ''  Hello   '') = ''Hello''"
  by code_simp+

lemma header_examples:
  "headers_of msg_mixed_case = mixed_case_headers"
  "last_header ''From'' mixed_case_headers = Some (JStr ''a@x.com'')"
  "last_header ''Subject'' mixed_case_headers = Some (JStr ''Hi'')"
  "last_header ''Date'' mixed_case_headers = None"
  by code_simp+

lemma attachment_examples:
  "top_level_parts msg_inline_image = [part_related, part_pdf]"
  "filename_is_text part_related" "filename_is_text part_pdf"
  "declared_filenames [part_related, part_pdf] = [''invoice.pdf'']"
  "filter truthy (map filename_of [part_related, part_pdf]) = [JStr ''invoice.pdf'']"
  by code_simp+

lemma writer_examples:
  "map_of record_without_id ''id'' = None"
  "makedirs_error world_ok = None"
  "write_error world_ok (JStr (''sin_id_'' @ clock_timestamp world_ok)) = None"
  "''sin_id_'' @ clock_timestamp world_ok = ''sin_id_1759305600.0''"
  by code_simp+

section \<open>Runs of the entry point\<close>

lemma and_then_simps:
  "and_then (es, Inl e) f = (es, Inl e)"
  "and_then (es, Inr x) f = (es @ fst (f x), snd (f x))"
  by (simp_all add: and_then_def)

lemma get_gmail_service_run:
  "get_gmail_service w =
     (if \<not> token_exists w then ([Token_lookup], Inl FileNotFoundError)
      else case credentials_error w of
             Some e \<Rightarrow> ([Token_lookup, Load_credentials], Inl e)
           | None \<Rightarrow>
               (case build_error w of
                  Some e \<Rightarrow> ([Token_lookup, Load_credentials, Build_service], Inl e)
                | None \<Rightarrow> ([Token_lookup, Load_credentials, Build_service], Inr ())))"
  by (simp add: get_gmail_service_def load_credentials_def effect_def and_then_def
      split: option.splits)

lemma parse_email_id:
  assumes "parse_email lib now msg = Inr data"
  shows "\<exists>v. field msg ''id'' = Some v \<and> map_of data ''id'' = Some v"
  using assms
  by (cases msg)
     (auto simp: parse_email_def map_of_setitem split: sum.splits option.splits
       dest!: header_loop_keeps_id)

lemma service_events:
  "set (fst (get_gmail_service w)) \<subseteq> {Token_lookup, Load_credentials, Build_service}"
  by (auto simp: get_gmail_service_run split: option.splits if_splits)

lemma fetch_last_events:
  "set (fst (fetch_last_email w)) \<subseteq> {List_inbox, Print No_mail_found}"
  by (auto simp: fetch_last_email_def pure_step_def and_then_def split: sum.splits if_splits)

lemma select_mode_events:
  "Write_file p d \<notin> set (fst (select_mode w args))"
  using fetch_last_events [of w]
  by (auto simp: select_mode_def and_then_def split: sum.splits option.splits if_splits)

lemma process_email_writes:
  assumes "Write_file p d \<in> set (fst (process_email lib w msg_id))"
  shows "\<exists>msg v. get_response w msg_id = Inr msg \<and>
           parse_email lib (clock_iso w) msg = Inr d \<and>
           field msg ''id'' = Some v \<and> map_of d ''id'' = Some v \<and> p = Mail_json v"
proof -
  from assms obtain msg where g: "get_response w msg_id = Inr msg"
    by (cases "get_response w msg_id")
       (auto simp: process_email_def fetch_email_by_id_def and_then_def)
  from assms g obtain parsed where pe: "parse_email lib (clock_iso w) msg = Inr parsed"
    by (cases "parse_email lib (clock_iso w) msg")
       (auto simp: process_email_def fetch_email_by_id_def pure_step_def and_then_def)
  from parse_email_id [OF pe] obtain v where
    v: "field msg ''id'' = Some v" "map_of parsed ''id'' = Some v"
    by blast
  from assms g pe v have "p = Mail_json v \<and> d = parsed"
    by (auto simp: process_email_def fetch_email_by_id_def pure_step_def and_then_def
        save_email_json_def effect_def Let_def split: sum.splits option.splits if_splits)
  with g pe v show ?thesis by blast
qed

lemma main_writes:
  assumes "Write_file p d \<in> set (fst (main lib w args))"
  shows "\<exists>msg_id msg v. get_response w msg_id = Inr msg \<and>
           parse_email lib (clock_iso w) msg = Inr d \<and>
           field msg ''id'' = Some v \<and> map_of d ''id'' = Some v \<and> p = Mail_json v"
proof -
  from assms service_events [of w] select_mode_events [of p d w args]
  obtain msg_id where "Write_file p d \<in> set (fst (process_email lib w msg_id))"
    by (auto simp: main_def and_then_def split: sum.splits option.splits)
  from process_email_writes [OF this] show ?thesis by blast
qed

lemma main_id_run:
  "main ref_lib world_ok args_id =
     ([Token_lookup, Load_credentials, Build_service, Print (Reading_id (JStr ''18c2f0a1'')),
       Get_message (JStr ''18c2f0a1''), Make_dirs,
       Write_file (Mail_json (JStr ''18c2f0a1''))
         [(''id'', JStr ''18c2f0a1''),
          (''fecha_extraccion'', JStr ''2025-10-01T08:00:00+00:00''),
          (''remitente'', JStr ''a@x.com''), (''asunto'', JStr ''Hi''),
          (''fecha_correo'', JStr ''Mon, 1 Jan 2024''),
          (''body'', JStr ''Hello''), (''snippet'', JStr ''Hello''),
          (''labels'', JArr [JStr ''INBOX'', JStr ''UNREAD'']),
          (''adjuntos'', JArr [JStr ''invoice.pdf''])],
       Print (Saved (Mail_json (JStr ''18c2f0a1''))), Print Finished],
      Inr ())"
  by code_simp

text \<open>
  What well-formedness rules out: a header without its value, a part that is not a dict
  and a payload that is not a dict make \<open>parse_email\<close> raise.
\<close>

lemma outside_well_formedness:
  "parse_email ref_lib ''2025-10-01T08:00:00+00:00''
     (JObj [(''id'', JStr ''18c2f0a1''),
            (''payload'', JObj [(''headers'', JArr [JObj [(''name'', JStr ''From'')]])])]) =
     Inl KeyError"
  "parse_email ref_lib ''2025-10-01T08:00:00+00:00''
     (JObj [(''id'', JStr ''18c2f0a1''),
            (''payload'', JObj [(''parts'', JArr [JStr ''text/plain''])])]) =
     Inl AttributeError"
  "parse_email ref_lib ''2025-10-01T08:00:00+00:00''
     (JObj [(''id'', JStr ''18c2f0a1''), (''payload'', JNull)]) =
     Inl AttributeError"
  by code_simp+

section \<open>The claims\<close>

text \<open>
  C1. When the payload has a parts list, the body is the decoded text of the first part,
  in the order of the list, whose MIME type is exactly \<open>text/plain\<close> and whose decoding
  succeeds, wherever it stands among the other parts. A plain-text part before it that has
  no text (no body, no body data, data that is not a string, data the decoder rejects) is
  skipped, and the scan goes on. The text is stored trimmed, as every body is.
\<close>

theorem first_plain_text_part_is_body:
  assumes "wf_message msg"
    and "parts_of msg = Some (pre @ p # post)"
    and "is_plain_text p"
    and "part_text lib p = Some text"
    and "\<forall>q\<in>set pre. \<not> is_plain_text q \<or> part_text lib q = None"
  shows "\<exists>data. parse_email lib now msg = Inr data \<and>
           map_of data ''body'' = Some (JStr (strip lib text)) \<and>
           is_trim_of lib text (strip lib text)"
proof -
  have skipped: "\<forall>q\<in>set pre. \<not> (is_plain_text q \<and> decode_body lib q \<noteq> None)"
    using assms(5) by (auto simp: decode_body_part_text)
  have "plain_texts lib (pre @ p # post) = text # plain_texts lib post"
    using assms(3,4) plain_texts_none [OF skipped]
    by (simp add: plain_texts_append)
       (simp add: plain_texts_def List.map_filter_simps decode_body_part_text)
  then have "body_text lib msg = text"
    using assms(2) by (simp add: body_text_def)
  with parse_email_body [OF assms(1), of lib now] strip_is_trim [of lib "text"]
  show ?thesis by simp
qed

theorem first_plain_text_part_is_body_witness:
  "wf_message msg_parts \<and>
   parts_of msg_parts =
     Some ([part_html, part_broken, part_no_data, part_no_body] @
           part_hello # [part_second, part_pdf]) \<and>
   is_plain_text part_hello \<and>
   part_text ref_lib part_hello = Some ''  Hello   '' \<and>
   \<not> is_plain_text part_html \<and>
   is_plain_text part_broken \<and>
   field part_broken ''body'' =
     Some (JObj [(''size'', JInt 5), (''data'', JStr ''SGVsbG8'')]) \<and>
   urlsafe_b64decode ref_lib ''SGVsbG8'' = None \<and>
   part_text ref_lib part_broken = None \<and>
   is_plain_text part_no_data \<and>
   field part_no_data ''body'' = Some (JObj [(''size'', JInt 0)]) \<and>
   part_text ref_lib part_no_data = None \<and>
   is_plain_text part_no_body \<and>
   field part_no_body ''body'' = None \<and>
   part_text ref_lib part_no_body = None \<and>
   (\<exists>data. parse_email ref_lib ''2025-10-01T08:00:00+00:00'' msg_parts = Inr data \<and>
      map_of data ''body'' = Some (JStr ''Hello''))"
proof -
  from first_plain_text_part_is_body [OF wf_examples(1) parts_of_examples(1)
      plain_examples(1) part_text_examples(1) skipped_examples,
      of "''2025-10-01T08:00:00+00:00''"]
  have "\<exists>data. parse_email ref_lib ''2025-10-01T08:00:00+00:00'' msg_parts = Inr data \<and>
      map_of data ''body'' = Some (JStr ''Hello'')"
    by (simp only: decode_examples(4)) blast
  then show ?thesis
    by (intro conjI wf_examples(1) parts_of_examples(1) plain_examples(1,3,4,5,6)
        part_text_examples)
qed

text \<open>
  C2. \<open>parse_email\<close> returns a record for every well-formed message: a message with an
  id may lack its payload, its headers, any of the From, Subject and Date headers, its
  parts and its body data. (The clock is the function's only other input.)
\<close>

theorem parse_email_total:
  assumes "wf_message msg"
  shows "\<exists>data. parse_email lib now msg = Inr data"
  using parse_email_body [OF assms, of lib now] by blast

theorem parse_email_total_witness:
  "wf_message msg_bare \<and>
   (\<exists>data. parse_email ref_lib ''2025-10-01T08:00:00+00:00'' msg_bare = Inr data)"
  by (intro conjI wf_examples(5) parse_email_total [OF wf_examples(5)])

text \<open>
  C3. The claim speaks of a depth-first search through nested parts. The loop reads
  the parts of the payload's own list only: a plain-text part inside a multipart part is
  never looked at.
\<close>

theorem nested_plain_text_part_not_found:
  "parts_of msg_nested = Some [part_nested, part_pdf] \<and>
   field part_nested ''parts'' = Some (JArr [part_inner, part_html]) \<and>
   is_plain_text part_inner \<and>
   decode_body ref_lib part_inner = Some ''Hello'' \<and>
   parse_email ref_lib ''2025-10-01T08:00:00+00:00'' msg_nested =
     Inr [(''id'', JStr ''18c2f0a1''),
          (''fecha_extraccion'', JStr ''2025-10-01T08:00:00+00:00''),
          (''remitente'', JStr ''a@x.com''), (''asunto'', JStr ''Hi''),
          (''fecha_correo'', JStr ''Mon, 1 Jan 2024''),
          (''body'', JStr []), (''snippet'', JStr ''Hello''),
          (''labels'', JArr [JStr ''INBOX'', JStr ''UNREAD'']),
          (''adjuntos'', JArr [JStr ''invoice.pdf''])]"
  by (intro conjI parts_of_examples(2) nested_examples(1) plain_examples(2)
      decode_examples(2) parse_msg_nested)

text \<open>
  C3, as the code has it: the body is the trimmed text of the first part of the
  payload's own parts list that is plain text and decodes, and the empty string when that
  list has none; parts nested in other parts play no role.
\<close>

theorem body_is_first_top_level_plain_text:
  assumes "wf_message msg"
    and "parts_of msg = Some ps"
  shows "\<exists>data. parse_email lib now msg = Inr data \<and>
           map_of data ''body'' =
             Some (JStr (strip lib (case plain_texts lib ps of [] \<Rightarrow> [] | t # ts \<Rightarrow> t)))"
  using parse_email_body [OF assms(1), of lib now] assms(2)
  by (simp add: body_text_def)

theorem body_is_first_top_level_plain_text_witness:
  "wf_message msg_nested \<and>
   parts_of msg_nested = Some [part_nested, part_pdf] \<and>
   (\<exists>data. parse_email ref_lib ''2025-10-01T08:00:00+00:00'' msg_nested = Inr data \<and>
      map_of data ''body'' =
        Some (JStr (strip ref_lib
          (case plain_texts ref_lib [part_nested, part_pdf] of [] \<Rightarrow> [] | t # ts \<Rightarrow> t))))"
  by (intro conjI wf_examples(2) parts_of_examples(2)
      body_is_first_top_level_plain_text [OF wf_examples(2) parts_of_examples(2)])

text \<open>
  C7. Without a parts list the payload's own body is decoded: where \<open>body.data\<close> is a
  string the decoder accepts, the record's body is the decoded text, trimmed: the decoded
  text without the whitespace at its two ends, all of it. In every other case (no body,
  no data, data that is not a string, data the decoder rejects) the body is the empty
  string, and the function still returns its record.
\<close>

theorem body_without_parts:
  assumes "wf_message msg"
    and "field (payload_of msg) ''parts'' = None"
  shows "\<exists>data t. parse_email lib now msg = Inr data \<and>
           map_of data ''body'' = Some (JStr t) \<and>
           (case field (payload_of msg) ''body'' of
              Some b \<Rightarrow>
                (case field b ''data'' of
                   Some (JStr s) \<Rightarrow>
                     (case urlsafe_b64decode lib s of
                        Some bytes \<Rightarrow>
                          t = strip lib (utf8_ignore lib bytes) \<and>
                          is_trim_of lib (utf8_ignore lib bytes) t
                      | None \<Rightarrow> t = [])
                 | _ \<Rightarrow> t = [])
            | None \<Rightarrow> t = [])"
proof -
  have "parts_of msg = None"
    using assms(2) by (simp add: parts_of_def)
  then have "case field (payload_of msg) ''body'' of
      Some b \<Rightarrow>
        (case field b ''data'' of
           Some (JStr s) \<Rightarrow>
             (case urlsafe_b64decode lib s of
                Some bytes \<Rightarrow>
                  strip lib (body_text lib msg) = strip lib (utf8_ignore lib bytes) \<and>
                  is_trim_of lib (utf8_ignore lib bytes) (strip lib (body_text lib msg))
              | None \<Rightarrow> strip lib (body_text lib msg) = [])
         | _ \<Rightarrow> strip lib (body_text lib msg) = [])
    | None \<Rightarrow> strip lib (body_text lib msg) = []"
    by (simp add: body_text_def decode_body_field strip_empty strip_is_trim
        split: option.splits json.splits)
  with parse_email_body [OF assms(1), of lib now] show ?thesis by blast
qed

theorem body_without_parts_witness:
  "wf_message msg_single \<and>
   field (payload_of msg_single) ''parts'' = None \<and>
   field (payload_of msg_single) ''body'' =
     Some (JObj [(''size'', JInt 10), (''data'', JStr ''ICBIZWxsbyAgIA=='')]) \<and>
   urlsafe_b64decode ref_lib ''ICBIZWxsbyAgIA=='' = Some ''  Hello   '' \<and>
   utf8_ignore ref_lib ''  Hello   '' = ''  Hello   '' \<and>
   (\<exists>data. parse_email ref_lib ''2025-10-01T08:00:00+00:00'' msg_single = Inr data \<and>
      map_of data ''body'' = Some (JStr ''Hello''))"
proof -
  from body_without_parts [OF wf_examples(4) no_parts_examples(1),
      of ref_lib "''2025-10-01T08:00:00+00:00''"]
  have "\<exists>data. parse_email ref_lib ''2025-10-01T08:00:00+00:00'' msg_single = Inr data \<and>
      map_of data ''body'' = Some (JStr ''Hello'')"
    by (auto simp: no_parts_examples decode_examples(4))
  then show ?thesis
    by (intro conjI wf_examples(4) no_parts_examples(1,2,3,4))
qed

text \<open>
  C8. A parts list without any part of MIME type \<open>text/plain\<close> gives the empty body.
\<close>

theorem body_empty_without_plain_text:
  assumes "wf_message msg"
    and "parts_of msg = Some ps"
    and "\<forall>p\<in>set ps. \<not> is_plain_text p"
  shows "\<exists>data. parse_email lib now msg = Inr data \<and> map_of data ''body'' = Some (JStr [])"
proof -
  have "plain_texts lib ps = []"
    using assms(3) by (intro plain_texts_none) simp
  then have "strip lib (body_text lib msg) = []"
    using assms(2) by (simp add: body_text_def strip_empty)
  with parse_email_body [OF assms(1), of lib now] show ?thesis by simp
qed

theorem body_empty_without_plain_text_witness:
  "wf_message msg_no_plain \<and>
   parts_of msg_no_plain = Some [part_html, part_pdf] \<and>
   \<not> is_plain_text part_html \<and> \<not> is_plain_text part_pdf \<and>
   (\<exists>data. parse_email ref_lib ''2025-10-01T08:00:00+00:00'' msg_no_plain = Inr data \<and>
      map_of data ''body'' = Some (JStr []))"
  using body_empty_without_plain_text [OF wf_examples(3) parts_of_examples(3) plain_examples(7)]
    wf_examples(3) parts_of_examples(3) plain_examples(7)
  by simp

text \<open>
  C9. The claim lists the filename of every part that declares one. The loop reads the
  parts of the payload's own list only: the inline image of the example, nested in a
  multipart part, is not among the attachments.
\<close>

theorem nested_attachment_not_listed:
  "wf_message msg_inline_image \<and>
   parts_of msg_inline_image = Some [part_related, part_pdf] \<and>
   field part_related ''parts'' = Some (JArr [part_html, part_image]) \<and>
   field part_image ''filename'' = Some (JStr ''image001.png'') \<and>
   parse_email ref_lib ''2025-10-01T08:00:00+00:00'' msg_inline_image =
     Inr [(''id'', JStr ''18c2f0a1''),
          (''fecha_extraccion'', JStr ''2025-10-01T08:00:00+00:00''),
          (''remitente'', JStr ''a@x.com''), (''asunto'', JStr ''Hi''),
          (''fecha_correo'', JStr ''Mon, 1 Jan 2024''),
          (''body'', JStr []), (''snippet'', JStr ''Hello''),
          (''labels'', JArr [JStr ''INBOX'', JStr ''UNREAD'']),
          (''adjuntos'', JArr [JStr ''invoice.pdf''])]"
  by (intro conjI wf_examples(6) parts_of_examples(4) nested_examples(3,4)
      parse_msg_inline_image)

text \<open>
  C9, as the code has it: the attachments are the \<open>filename\<close> values of the parts of the
  payload's own parts list, in the order of the list, that are true for Python; where the
  filenames are strings, as Gmail gives them, these are exactly the non-empty filenames. A
  part without a filename or with an empty one adds nothing, a part nested in another
  part is not read, nor are the MIME type, the attachment id and the content; without a
  parts list the result is empty.
\<close>

theorem attachments_are_top_level_filenames:
  assumes "wf_message msg"
  shows "\<exists>data. parse_email lib now msg = Inr data \<and>
           map_of data ''adjuntos'' =
             Some (JArr (filter truthy (map filename_of (top_level_parts msg)))) \<and>
           ((\<forall>p\<in>set (top_level_parts msg). filename_is_text p) \<longrightarrow>
              map_of data ''adjuntos'' =
                Some (JArr (map JStr (declared_filenames (top_level_parts msg)))))"
proof -
  from parse_email_wf [OF assms, of now lib] obtain msg_id data1 where
    "parse_email lib now msg =
       Inr (setitem ''adjuntos'' (JArr (filter truthy (map filename_of (top_level_parts msg))))
           (setitem ''labels'' (case field msg ''labelIds'' of Some l \<Rightarrow> l | None \<Rightarrow> JArr [])
           (setitem ''snippet'' (case field msg ''snippet'' of Some s \<Rightarrow> s | None \<Rightarrow> JStr [])
           (setitem ''body'' (JStr (strip lib (body_text lib msg))) data1))))"
    by blast
  then have r: "\<exists>data. parse_email lib now msg = Inr data \<and>
      map_of data ''adjuntos'' =
        Some (JArr (filter truthy (map filename_of (top_level_parts msg))))"
    by (simp add: map_of_setitem)
  have "(\<forall>p\<in>set ps. filename_is_text p) \<Longrightarrow>
      filter truthy (map filename_of ps) = map JStr (declared_filenames ps)" for ps
    by (induction ps)
       (auto simp: filename_is_text_def filename_of_def declared_filenames_def
          List.map_filter_simps split: option.splits json.splits)
  with r show ?thesis by auto
qed

theorem attachments_are_top_level_filenames_witness:
  "wf_message msg_inline_image \<and>
   top_level_parts msg_inline_image = [part_related, part_pdf] \<and>
   filename_is_text part_related \<and> filename_is_text part_pdf \<and>
   declared_filenames [part_related, part_pdf] = [''invoice.pdf''] \<and>
   (\<exists>data. parse_email ref_lib ''2025-10-01T08:00:00+00:00'' msg_inline_image = Inr data \<and>
      map_of data ''adjuntos'' = Some (JArr [JStr ''invoice.pdf'']))"
proof -
  from attachments_are_top_level_filenames [OF wf_examples(6),
      of ref_lib "''2025-10-01T08:00:00+00:00''"]
  have "\<exists>data. parse_email ref_lib ''2025-10-01T08:00:00+00:00'' msg_inline_image = Inr data \<and>
      map_of data ''adjuntos'' = Some (JArr [JStr ''invoice.pdf''])"
    by (auto simp: attachment_examples)
  then show ?thesis
    by (intro conjI wf_examples(6) attachment_examples(1,2,3,4))
qed

text \<open>
  C10. Header names are compared without regard to the case of their letters, whichever
  letters of the name are in which case. The record's \<open>remitente\<close>, \<open>asunto\<close> and
  \<open>fecha_correo\<close> are the values of the last header named From, Subject and Date; where
  the message has no such header the key is absent from the record.
\<close>

theorem headers_last_one_wins:
  assumes "wf_message msg"
  shows "\<exists>data. parse_email lib now msg = Inr data \<and>
           map_of data ''remitente'' = last_header ''From'' (headers_of msg) \<and>
           map_of data ''asunto'' = last_header ''Subject'' (headers_of msg) \<and>
           map_of data ''fecha_correo'' = last_header ''Date'' (headers_of msg)"
proof -
  from parse_email_wf [OF assms, of now lib] obtain msg_id data1 where
    hl: "header_loop (headers_of msg) [(''id'', msg_id), (''fecha_extraccion'', JStr now)] =
           Inr data1" and
    pe: "parse_email lib now msg =
       Inr (setitem ''adjuntos'' (JArr (filter truthy (map filename_of (top_level_parts msg))))
           (setitem ''labels'' (case field msg ''labelIds'' of Some l \<Rightarrow> l | None \<Rightarrow> JArr [])
           (setitem ''snippet'' (case field msg ''snippet'' of Some s \<Rightarrow> s | None \<Rightarrow> JStr [])
           (setitem ''body'' (JStr (strip lib (body_text lib msg))) data1))))"
    by blast
  have wh: "list_all wf_header (headers_of msg)"
    using headers_wf(2) [OF wf_payload_of(1) [OF assms]] by (simp add: headers_of_def)
  from header_loop_wf [OF wh, of "[(''id'', msg_id), (''fecha_extraccion'', JStr now)]"] hl
  have "map_of data1 ''remitente'' = last_header ''From'' (headers_of msg)"
    and "map_of data1 ''asunto'' = last_header ''Subject'' (headers_of msg)"
    and "map_of data1 ''fecha_correo'' = last_header ''Date'' (headers_of msg)"
    by (auto split: option.splits)
  with pe show ?thesis
    by (simp add: map_of_setitem)
qed

theorem headers_last_one_wins_witness:
  "wf_message msg_mixed_case \<and>
   headers_of msg_mixed_case =
     [header ''FROM'' ''first@x.com'', header ''Subject'' ''Draft'',
      header ''fRoM'' ''a@x.com'', header ''X-Date'' ''never'', header ''Fromage'' ''brie'',
      header ''sUBJECt'' ''Hi'', header ''To'' ''b@y.org''] \<and>
   (\<exists>data. parse_email ref_lib ''2025-10-01T08:00:00+00:00'' msg_mixed_case = Inr data \<and>
      map_of data ''remitente'' = Some (JStr ''a@x.com'') \<and>
      map_of data ''asunto'' = Some (JStr ''Hi'') \<and>
      map_of data ''fecha_correo'' = None)"
proof -
  have h: "headers_of msg_mixed_case =
     [header ''FROM'' ''first@x.com'', header ''Subject'' ''Draft'',
      header ''fRoM'' ''a@x.com'', header ''X-Date'' ''never'', header ''Fromage'' ''brie'',
      header ''sUBJECt'' ''Hi'', header ''To'' ''b@y.org'']"
    by code_simp
  from headers_last_one_wins [OF wf_examples(7), of ref_lib "''2025-10-01T08:00:00+00:00''"]
  have "\<exists>data. parse_email ref_lib ''2025-10-01T08:00:00+00:00'' msg_mixed_case = Inr data \<and>
      map_of data ''remitente'' = Some (JStr ''a@x.com'') \<and>
      map_of data ''asunto'' = Some (JStr ''Hi'') \<and>
      map_of data ''fecha_correo'' = None"
    by (simp only: header_examples)
  with h show ?thesis
    by (intro conjI wf_examples(7))
qed

text \<open>
  C4. The claim has a message without an id still produce a record, with a placeholder
  for its id. \<open>parse_email\<close> reads \<open>msg["id"]\<close> and raises on such a message: the run
  ends there, with no record and no file.
\<close>

theorem message_without_id_raises:
  "field msg_without_id ''id'' = None \<and>
   parse_email ref_lib ''2025-10-01T08:00:00+00:00'' msg_without_id = Inl KeyError \<and>
   get_response world_missing_id (JStr ''18c2f0a1'') = Inr msg_without_id \<and>
   main ref_lib world_missing_id args_id =
     ([Token_lookup, Load_credentials, Build_service, Print (Reading_id (JStr ''18c2f0a1'')),
       Get_message (JStr ''18c2f0a1'')],
      Inl KeyError)"
  by (intro conjI; code_simp)

text \<open>
  C4, as the code has it: the id of a record is the id of the message it was made from,
  never a made-up one. A message without an id makes \<open>parse_email\<close> raise, so that
  processing it ends after the fetch with that exception and nothing is saved. Every file
  the entry point writes holds a record with the id of a fetched message and is named after
  that id. The writer, handed a record without an id, names the file after the placeholder
  built from the clock and writes the record as it is, still without an id; no run of the
  entry point hands it such a record.
\<close>

theorem record_id_is_message_id:
  "(parse_email lib now msg = Inr data \<longrightarrow>
      (\<exists>v. field msg ''id'' = Some v \<and> map_of data ''id'' = Some v)) \<and>
   (field msg ''id'' = None \<and> get_response w msg_id = Inr msg \<longrightarrow>
      (\<exists>e. parse_email lib (clock_iso w) msg = Inl e \<and>
           process_email lib w msg_id = ([Get_message msg_id], Inl e))) \<and>
   (Write_file p d \<in> set (fst (main lib w args)) \<longrightarrow>
      (\<exists>fetched_id fetched v.
          get_response w fetched_id = Inr fetched \<and>
          parse_email lib (clock_iso w) fetched = Inr d \<and>
          field fetched ''id'' = Some v \<and> map_of d ''id'' = Some v \<and> p = Mail_json v)) \<and>
   (map_of rec ''id'' = None \<and> makedirs_error w = None \<and>
    write_error w (JStr (''sin_id_'' @ clock_timestamp w)) = None \<longrightarrow>
      save_email_json w rec =
        ([Make_dirs,
          Write_file (Mail_json (JStr (''sin_id_'' @ clock_timestamp w))) rec,
          Print (Saved (Mail_json (JStr (''sin_id_'' @ clock_timestamp w))))],
         Inr (Mail_json (JStr (''sin_id_'' @ clock_timestamp w)))))"
proof (intro conjI impI)
  assume "parse_email lib now msg = Inr data"
  then show "\<exists>v. field msg ''id'' = Some v \<and> map_of data ''id'' = Some v"
    by (rule parse_email_id)
next
  assume a: "field msg ''id'' = None \<and> get_response w msg_id = Inr msg"
  have "\<exists>e. parse_email lib (clock_iso w) msg = Inl e"
  proof (cases "parse_email lib (clock_iso w) msg")
    case (Inl e)
    then show ?thesis by blast
  next
    case (Inr d)
    from parse_email_id [OF this] a show ?thesis by simp
  qed
  then obtain e where e: "parse_email lib (clock_iso w) msg = Inl e" by blast
  have "process_email lib w msg_id = ([Get_message msg_id], Inl e)"
    using a e
    by (simp add: process_email_def fetch_email_by_id_def pure_step_def and_then_def)
  with e show "\<exists>e. parse_email lib (clock_iso w) msg = Inl e \<and>
      process_email lib w msg_id = ([Get_message msg_id], Inl e)"
    by blast
next
  assume "Write_file p d \<in> set (fst (main lib w args))"
  then show "\<exists>fetched_id fetched v.
          get_response w fetched_id = Inr fetched \<and>
          parse_email lib (clock_iso w) fetched = Inr d \<and>
          field fetched ''id'' = Some v \<and> map_of d ''id'' = Some v \<and> p = Mail_json v"
    by (rule main_writes)
next
  assume "map_of rec ''id'' = None \<and> makedirs_error w = None \<and>
    write_error w (JStr (''sin_id_'' @ clock_timestamp w)) = None"
  then show "save_email_json w rec =
        ([Make_dirs,
          Write_file (Mail_json (JStr (''sin_id_'' @ clock_timestamp w))) rec,
          Print (Saved (Mail_json (JStr (''sin_id_'' @ clock_timestamp w))))],
         Inr (Mail_json (JStr (''sin_id_'' @ clock_timestamp w))))"
    by (simp add: save_email_json_def effect_def and_then_def Let_def)
qed

theorem record_id_is_message_id_witness:
  "parse_email ref_lib ''2025-10-01T08:00:00+00:00'' msg_parts =
     Inr [(''id'', JStr ''18c2f0a1''),
          (''fecha_extraccion'', JStr ''2025-10-01T08:00:00+00:00''),
          (''remitente'', JStr ''a@x.com''), (''asunto'', JStr ''Hi''),
          (''fecha_correo'', JStr ''Mon, 1 Jan 2024''),
          (''body'', JStr ''Hello''), (''snippet'', JStr ''Hello''),
          (''labels'', JArr [JStr ''INBOX'', JStr ''UNREAD'']),
          (''adjuntos'', JArr [JStr ''invoice.pdf''])] \<and>
   field msg_parts ''id'' = Some (JStr ''18c2f0a1'') \<and>
   field msg_without_id ''id'' = None \<and>
   get_response world_missing_id (JStr ''18c2f0a1'') = Inr msg_without_id \<and>
   (\<exists>e. parse_email ref_lib (clock_iso world_missing_id) msg_without_id = Inl e \<and>
        process_email ref_lib world_missing_id (JStr ''18c2f0a1'') =
          ([Get_message (JStr ''18c2f0a1'')], Inl e)) \<and>
   Write_file (Mail_json (JStr ''18c2f0a1''))
     [(''id'', JStr ''18c2f0a1''),
      (''fecha_extraccion'', JStr ''2025-10-01T08:00:00+00:00''),
      (''remitente'', JStr ''a@x.com''), (''asunto'', JStr ''Hi''),
      (''fecha_correo'', JStr ''Mon, 1 Jan 2024''),
      (''body'', JStr ''Hello''), (''snippet'', JStr ''Hello''),
      (''labels'', JArr [JStr ''INBOX'', JStr ''UNREAD'']),
      (''adjuntos'', JArr [JStr ''invoice.pdf''])]
     \<in> set (fst (main ref_lib world_ok args_id)) \<and>
   (\<exists>fetched_id fetched.
       get_response world_ok fetched_id = Inr fetched \<and>
       field fetched ''id'' = Some (JStr ''18c2f0a1'')) \<and>
   map_of record_without_id ''id'' = None \<and>
   makedirs_error world_ok = None \<and>
   write_error world_ok (JStr (''sin_id_'' @ clock_timestamp world_ok)) = None \<and>
   save_email_json world_ok record_without_id =
     ([Make_dirs,
       Write_file (Mail_json (JStr ''sin_id_1759305600.0''))
         [(''body'', JStr ''Hello''), (''adjuntos'', JArr [])],
       Print (Saved (Mail_json (JStr ''sin_id_1759305600.0'')))],
      Inr (Mail_json (JStr ''sin_id_1759305600.0'')))"
proof -
  have h1: "field msg_parts ''id'' = Some (JStr ''18c2f0a1'')" by code_simp
  have h2: "field msg_without_id ''id'' = None" by code_simp
  have h3: "get_response world_missing_id (JStr ''18c2f0a1'') = Inr msg_without_id"
    by code_simp
  have h4: "Write_file (Mail_json (JStr ''18c2f0a1''))
     [(''id'', JStr ''18c2f0a1''),
      (''fecha_extraccion'', JStr ''2025-10-01T08:00:00+00:00''),
      (''remitente'', JStr ''a@x.com''), (''asunto'', JStr ''Hi''),
      (''fecha_correo'', JStr ''Mon, 1 Jan 2024''),
      (''body'', JStr ''Hello''), (''snippet'', JStr ''Hello''),
      (''labels'', JArr [JStr ''INBOX'', JStr ''UNREAD'']),
      (''adjuntos'', JArr [JStr ''invoice.pdf''])]
     \<in> set (fst (main ref_lib world_ok args_id))"
    by (simp add: main_id_run)
  from record_id_is_message_id
    [of ref_lib _ msg_without_id _ world_missing_id "JStr ''18c2f0a1''"] h2 h3
  have c2: "\<exists>e. parse_email ref_lib (clock_iso world_missing_id) msg_without_id = Inl e \<and>
        process_email ref_lib world_missing_id (JStr ''18c2f0a1'') =
          ([Get_message (JStr ''18c2f0a1'')], Inl e)"
    by blast
  from record_id_is_message_id [THEN conjunct2, THEN conjunct2, THEN conjunct1, THEN mp, OF h4]
  obtain fetched_id fetched v where
    g: "get_response world_ok fetched_id = Inr fetched" and
    i: "field fetched ''id'' = Some v" and
    p: "Mail_json (JStr ''18c2f0a1'') = Mail_json v"
    by blast
  from p have "v = JStr ''18c2f0a1''" by simp
  with g i have c3: "\<exists>fetched_id fetched.
       get_response world_ok fetched_id = Inr fetched \<and>
       field fetched ''id'' = Some (JStr ''18c2f0a1'')"
    by blast
  have w: "map_of record_without_id ''id'' = None \<and> makedirs_error world_ok = None \<and>
      write_error world_ok (JStr (''sin_id_'' @ clock_timestamp world_ok)) = None"
    by (intro conjI writer_examples(1,2,3))
  from record_id_is_message_id
    [THEN conjunct2, THEN conjunct2, THEN conjunct2, THEN mp, OF w]
  have c4: "save_email_json world_ok record_without_id =
     ([Make_dirs,
       Write_file (Mail_json (JStr ''sin_id_1759305600.0''))
         [(''body'', JStr ''Hello''), (''adjuntos'', JArr [])],
       Print (Saved (Mail_json (JStr ''sin_id_1759305600.0'')))],
      Inr (Mail_json (JStr ''sin_id_1759305600.0'')))"
    by (simp only: writer_examples(4) record_without_id_def)
  from parse_msg_parts h1 h2 h3 c2 h4 c3 c4 show ?thesis
    by (intro conjI writer_examples(1,2,3))
qed

text \<open>
  C5. The claim has the usage notice come before any step that can fail. The entry
  point builds the Gmail service before it looks at the flags: without the token file the
  run ends with FileNotFoundError and prints no usage notice.
\<close>

theorem no_flags_without_token_raises:
  "arg_id args_none = None \<and> \<not> arg_last args_none \<and>
   main ref_lib world_no_token args_none = ([Token_lookup], Inl FileNotFoundError)"
  by (intro conjI; code_simp)

text \<open>
  C5, as the code has it: with neither flag the entry point first looks for the token,
  loads the credentials and builds the service; if one of these fails the run ends with
  that exception; otherwise it prints the usage notice and returns, with no API call and
  no file written.
\<close>

theorem no_flags_usage_after_service:
  assumes "arg_id args = None"
    and "\<not> arg_last args"
  shows "main lib w args =
     (if \<not> token_exists w then ([Token_lookup], Inl FileNotFoundError)
      else case credentials_error w of
             Some e \<Rightarrow> ([Token_lookup, Load_credentials], Inl e)
           | None \<Rightarrow>
               (case build_error w of
                  Some e \<Rightarrow> ([Token_lookup, Load_credentials, Build_service], Inl e)
                | None \<Rightarrow>
                    ([Token_lookup, Load_credentials, Build_service, Print Usage], Inr ())))"
  using assms
  by (simp add: main_def get_gmail_service_run select_mode_def and_then_simps
      split: option.splits)

theorem no_flags_usage_after_service_witness:
  "arg_id args_none = None \<and> \<not> arg_last args_none \<and>
   main ref_lib world_ok args_none =
     ([Token_lookup, Load_credentials, Build_service, Print Usage], Inr ())"
proof -
  have h1: "arg_id args_none = None" and h2: "\<not> arg_last args_none"
    by (simp_all add: args_none_def)
  show ?thesis
    using no_flags_usage_after_service [OF h1 h2, of ref_lib world_ok] h1 h2
    by (simp add: world_ok_def)
qed

text \<open>
  C6. With \<open>--last\<close> and an inbox whose listing has no messages, \<open>fetch_last_email\<close>
  returns \<open>None\<close> and the entry point returns normally: once the service is built, the
  run lists the inbox, prints that there is no mail, and does nothing else.
\<close>

theorem empty_inbox_is_a_no_op:
  assumes "token_exists w" and "credentials_error w = None" and "build_error w = None"
    and "arg_id args = None" and "arg_last args"
    and "list_response w = Inr (JObj results)"
    and "map_of results ''messages'' = None \<or> map_of results ''messages'' = Some (JArr [])"
  shows "fetch_last_email w = ([List_inbox, Print No_mail_found], Inr JNull) \<and>
         main lib w args =
           ([Token_lookup, Load_credentials, Build_service, List_inbox, Print No_mail_found],
            Inr ())"
proof -
  have f: "fetch_last_email w = ([List_inbox, Print No_mail_found], Inr JNull)"
    using assms(6,7)
    by (auto simp: fetch_last_email_def pure_step_def and_then_def)
  have "main lib w args =
      ([Token_lookup, Load_credentials, Build_service, List_inbox, Print No_mail_found], Inr ())"
    using assms(1-5) f
    by (simp add: main_def get_gmail_service_run select_mode_def and_then_def)
  with f show ?thesis by simp
qed

theorem empty_inbox_is_a_no_op_witness:
  "token_exists world_empty_inbox \<and> credentials_error world_empty_inbox = None \<and>
   build_error world_empty_inbox = None \<and>
   arg_id args_last = None \<and> arg_last args_last \<and>
   list_response world_empty_inbox = Inr (JObj [(''resultSizeEstimate'', JInt 0)]) \<and>
   map_of [(''resultSizeEstimate'', JInt 0)] ''messages'' = (None :: json option) \<and>
   fetch_last_email world_empty_inbox = ([List_inbox, Print No_mail_found], Inr JNull) \<and>
   main ref_lib world_empty_inbox args_last =
     ([Token_lookup, Load_credentials, Build_service, List_inbox, Print No_mail_found],
      Inr ())"
proof -
  have h1: "token_exists world_empty_inbox"
    and h2: "credentials_error world_empty_inbox = None"
    and h3: "build_error world_empty_inbox = None"
    and h6: "list_response world_empty_inbox = Inr (JObj [(''resultSizeEstimate'', JInt 0)])"
    by (simp_all add: world_empty_inbox_def world_ok_def)
  have h4: "arg_id args_last = None" and h5: "arg_last args_last"
    by (simp_all add: args_last_def)
  have h7: "map_of [(''resultSizeEstimate'', JInt 0)] ''messages'' = (None :: json option)"
    by simp
  from empty_inbox_is_a_no_op [OF h1 h2 h3 h4 h5 h6 disjI1 [OF h7], of ref_lib]
    h1 h2 h3 h4 h5 h6 h7
  show ?thesis by blast
qed

end
